theory Spec2Isabelle
  imports Complex_Main
begin

section \<open>The YOLO detection head of Complex-YOLOv4 (src/models/yolo\_layer.py)\<close>

text \<open>
  The development embeds the class \<open>YoloLayer\<close>: its constructor, \<open>compute_grid_offsets\<close>,
  \<open>build_targets\<close> and \<open>forward\<close>. Tensor entries are idealised as real numbers (the
  source computes in 32-bit floats), but for two float effects that decide a property.
  The mean of an empty selection being NaN is kept explicit in the type \<open>fl\<close> of loss
  scalars; the rounding of the products that give a box its cell is kept open, as said
  below. Every exception the source can raise is a value of type \<open>error\<close>. The
  rotated-polygon IoU primitive \<open>rotated_box_wh_iou_polygon\<close> lives in
  utils/evaluation\_utils and is a parameter \<open>iou\<close> of the model: for one anchor row and
  one ground-truth box (its grid-unit width/height row and its im/re row) it gives the
  overlap. The products of lines 85-86, which take the ground truth to grid units, decide
  the cell of a box through the truncation of line 98; a float product is rounded, so
  these products are computed by a second parameter \<open>mul\<close>, the float multiplication, and
  every statement holds whatever that function is.
\<close>

subsection \<open>Python and torch primitives\<close>

datatype error = RuntimeError | ValueError | IndexError | ZeroDivisionError | AttributeError

text \<open>A loss scalar: a number, or NaN (what a mean over zero elements evaluates to).\<close>

datatype fl = Num real | NaN

fun fl_add :: "fl \<Rightarrow> fl \<Rightarrow> fl" where
  "fl_add (Num a) (Num b) = Num (a + b)"
| "fl_add _ _ = NaN"

fun fl_scale :: "real \<Rightarrow> fl \<Rightarrow> fl" where
  "fl_scale c (Num a) = Num (c * a)"
| "fl_scale c NaN = NaN"

text \<open>A contiguous tensor: its shape and its entries in row-major order.\<close>

record tensor =
  shape :: "nat list"
  data :: "real list"

definition numel :: "tensor \<Rightarrow> nat" where
  "numel x = prod_list (shape x)"

definition sigmoid :: "real \<Rightarrow> real" where
  "sigmoid v = 1 / (1 + exp (- v))"

text \<open>\<open>.long()\<close>: conversion of a float to an integer truncates toward zero.\<close>

definition long :: "real \<Rightarrow> int" where
  "long v = (if 0 \<le> v then \<lfloor>v\<rfloor> else \<lceil>v\<rceil>)"

text \<open>An entry of an index tensor, used on a dimension of size \<open>n\<close>: negative entries
  count from the end, anything outside \<open>[-n, n)\<close> raises.\<close>

definition tindex :: "nat \<Rightarrow> int \<Rightarrow> error + nat" where
  "tindex n i =
     (if 0 \<le> i \<and> i < int n then Inr (nat i)
      else if - int n \<le> i \<and> i < 0 then Inr (nat (i + int n))
      else Inl IndexError)"

text \<open>\<open>a, b = m.t()\<close> for a two-dimensional tensor \<open>m\<close> given by its rows: the
  unpacking needs exactly two columns.\<close>

definition unpack2 :: "'a list list \<Rightarrow> error + ('a list \<times> 'a list)" where
  "unpack2 m =
     (if list_all (\<lambda>r. length r = 2) m then Inr (map (\<lambda>r. r ! 0) m, map (\<lambda>r. r ! 1) m)
      else Inl ValueError)"

text \<open>\<open>max(0)\<close> returns, with the maximum, the index of its first occurrence.\<close>

fun argmax :: "real list \<Rightarrow> nat" where
  "argmax [] = 0"
| "argmax (v # vs) = (if list_all (\<lambda>u. u \<le> v) vs then 0 else Suc (argmax vs))"

text \<open>\<open>nn.MSELoss()\<close> and \<open>nn.BCELoss()\<close> with their default mean reduction. The sum of
  the elementwise losses is divided by the number of elements; for no elements that is
  0/0, NaN. \<open>BCELoss\<close> clamps its logarithms at -100.\<close>

definition mse_loss :: "real list \<Rightarrow> real list \<Rightarrow> fl" where
  "mse_loss inp tgt =
     (if inp = [] then NaN
      else Num ((\<Sum>(p, t) \<leftarrow> zip inp tgt. (p - t)\<^sup>2) / real (length inp)))"

definition clamp_log :: "real \<Rightarrow> real" where
  "clamp_log p = (if p \<le> 0 then - 100 else max (ln p) (- 100))"

definition bce_loss :: "real list \<Rightarrow> real list \<Rightarrow> fl" where
  "bce_loss inp tgt =
     (if inp = [] then NaN
      else Num ((\<Sum>(p, t) \<leftarrow> zip inp tgt. - (t * clamp_log p + (1 - t) * clamp_log (1 - p)))
                / real (length inp)))"

subsection \<open>The layer and its constructor\<close>

type_synonym anchor = "real \<times> real \<times> real \<times> real"

text \<open>The attributes of a \<open>YoloLayer\<close>. The five attributes that only
  \<open>compute_grid_offsets\<close> creates do not exist before its first call: they are optional.\<close>

record yolo_layer =
  num_classes :: nat
  anchors :: "anchor list"
  num_anchors :: nat
  stride :: real
  scale_x_y :: real
  ignore_thresh :: real
  coord_scale :: real
  noobj_scale :: real
  obj_scale :: real
  class_scale :: real
  seen :: nat
  grid_size :: nat
  img_size :: int
  metrics :: "(string \<times> fl) list"
  grid_x :: "real list list option"
  grid_y :: "real list list option"
  scaled_anchors :: "anchor list option"
  anchor_w :: "real list option"
  anchor_h :: "real list option"

definition YoloLayer_init :: "nat \<Rightarrow> anchor list \<Rightarrow> real \<Rightarrow> real \<Rightarrow> real \<Rightarrow> yolo_layer" where
  "YoloLayer_init n_classes anchs strd sxy thresh =
     \<lparr> num_classes = n_classes, anchors = anchs, num_anchors = length anchs,
       stride = strd, scale_x_y = sxy, ignore_thresh = thresh,
       coord_scale = 1, noobj_scale = 1, obj_scale = 5, class_scale = 1,
       seen = 0, grid_size = 0, img_size = 0, metrics = [],
       grid_x = None, grid_y = None, scaled_anchors = None,
       anchor_w = None, anchor_h = None \<rparr>"

subsection \<open>compute\_grid\_offsets\<close>

text \<open>\<open>torch.arange(g).repeat(g, 1)\<close>: \<open>g\<close> copies of the row \<open>0 .. g-1\<close>; \<open>.t()\<close>
  transposes it. The views to the shapes \<open>(1, 1, g, g)\<close> and \<open>(1, nA, 1, 1)\<close> only add
  dimensions of size 1: a grid is kept as its \<open>g\<close> rows, so that \<open>grid_x[0, 0, i, j]\<close> is
  \<open>grid_x ! i ! j\<close>, and the anchor widths and heights as lists.\<close>

definition arange :: "nat \<Rightarrow> real list" where
  "arange g = map real [0..<g]"

definition repeat_rows :: "nat \<Rightarrow> real list \<Rightarrow> real list list" where
  "repeat_rows g row = replicate g row"

definition t2 :: "nat \<Rightarrow> real list list \<Rightarrow> real list list" where
  "t2 ncols m = map (\<lambda>j. map (\<lambda>row. row ! j) m) [0..<ncols]"

text \<open>Lines 52-54: every anchor with its width and height divided by the stride.\<close>

definition scale_anchors :: "real \<Rightarrow> anchor list \<Rightarrow> anchor list" where
  "scale_anchors strd anchs = map (\<lambda>(a_w, a_h, im, re). (a_w / strd, a_h / strd, im, re)) anchs"

text \<open>The method assigns its attributes one after the other, so an exception leaves the
  earlier assignments in place: the result is the layer and, when it raised, the error.
  Line 48 divides two Python integers (ZeroDivisionError for a grid of size 0); line 53
  divides Python numbers by the stride; line 55 slices the anchor tensor along two
  dimensions, which an empty anchor list does not have.\<close>

definition compute_grid_offsets :: "yolo_layer \<Rightarrow> nat \<Rightarrow> yolo_layer \<times> error option" where
  "compute_grid_offsets self g_new =
     (let s1 = self\<lparr>grid_size := g_new\<rparr>;
          g = grid_size s1
      in if g = 0 then (s1, Some ZeroDivisionError)
         else
           let s2 = s1\<lparr>stride := real_of_int (img_size s1) / real g\<rparr>;
               s3 = s2\<lparr>grid_x := Some (repeat_rows g (arange g))\<rparr>;
               s4 = s3\<lparr>grid_y := Some (t2 g (repeat_rows g (arange g)))\<rparr>
           in if anchors s4 \<noteq> [] \<and> stride s4 = 0 then (s4, Some ZeroDivisionError)
              else
                let sa = scale_anchors (stride s4) (anchors s4);
                    s5 = s4\<lparr>scaled_anchors := Some sa\<rparr>
                in if sa = [] then (s5, Some IndexError)
                   else
                     let s6 = s5\<lparr>anchor_w := Some (map (\<lambda>(w, h, im, re). w) sa)\<rparr>;
                         s7 = s6\<lparr>anchor_h := Some (map (\<lambda>(w, h, im, re). h) sa)\<rparr>
                     in (s7, None))"

subsection \<open>build\_targets\<close>

text \<open>A position \<open>(batch, anchor, row, column)\<close> of the mask and target tensors, whose
  shape \<open>(nB, nA, nG, nG)\<close> is that of the class predictions. A tensor of that shape is
  a function of the position; \<open>tcls\<close> has the class as a fifth index.\<close>

type_synonym slot = "nat \<times> nat \<times> nat \<times> nat"

record targets =
  obj_mask :: "slot \<Rightarrow> bool"
  noobj_mask :: "slot \<Rightarrow> bool"
  tx :: "slot \<Rightarrow> real"
  ty :: "slot \<Rightarrow> real"
  tw :: "slot \<Rightarrow> real"
  th :: "slot \<Rightarrow> real"
  tim :: "slot \<Rightarrow> real"
  tre :: "slot \<Rightarrow> real"
  tcls :: "slot \<times> nat \<Rightarrow> real"
  tconf :: "slot \<Rightarrow> real"

text \<open>Assignment through index tensors, \<open>t[idx] = v\<close> for one value and
  \<open>t[idx] = vals\<close> for one value per index: the writes happen in the order of the
  index list, so among equal indices the last one stays.\<close>

definition index_fill :: "'i list \<Rightarrow> 'v \<Rightarrow> ('i \<Rightarrow> 'v) \<Rightarrow> ('i \<Rightarrow> 'v)" where
  "index_fill idx v t = fold (\<lambda>p m. m(p := v)) idx t"

definition index_put :: "'i list \<Rightarrow> 'v list \<Rightarrow> ('i \<Rightarrow> 'v) \<Rightarrow> ('i \<Rightarrow> 'v)" where
  "index_put idx vals t = fold (\<lambda>(p, v) m. m(p := v)) (zip idx vals) t"

text \<open>The first error of a list of results, or all their values.\<close>

fun collect :: "(error + 'a) list \<Rightarrow> error + 'a list" where
  "collect [] = Inr []"
| "collect (Inl e # rs) = Inl e"
| "collect (Inr v # rs) = (case collect rs of Inl e \<Rightarrow> Inl e | Inr vs \<Rightarrow> Inr (v # vs))"

text \<open>The index tuples \<open>[b, best_n, gj, gi]\<close> on a tensor of shape \<open>(nB, nA, nG, nG)\<close>,
  each component checked against its dimension.\<close>

definition slot_index :: "nat \<Rightarrow> nat \<Rightarrow> nat \<Rightarrow> int \<times> nat \<times> int \<times> int \<Rightarrow> error + slot" where
  "slot_index nB nA nG q =
     (case q of (b, a, gj, gi) \<Rightarrow>
        (case tindex nB b of Inl e \<Rightarrow> Inl e | Inr b' \<Rightarrow>
        (case tindex nA (int a) of Inl e \<Rightarrow> Inl e | Inr a' \<Rightarrow>
        (case tindex nG gj of Inl e \<Rightarrow> Inl e | Inr gj' \<Rightarrow>
        (case tindex nG gi of Inl e \<Rightarrow> Inl e | Inr gi' \<Rightarrow> Inr (b', a', gj', gi'))))))"

definition index4 ::
  "nat \<Rightarrow> nat \<Rightarrow> nat \<Rightarrow> int list \<Rightarrow> nat list \<Rightarrow> int list \<Rightarrow> int list \<Rightarrow> error + slot list" where
  "index4 nB nA nG b a gj gi = collect (map (slot_index nB nA nG) (zip b (zip a (zip gj gi))))"

text \<open>One round of the loop of lines 104-105, for box \<open>i\<close>: the IoUs of the anchors
  with the box, compared with the threshold, are a boolean mask on the anchor dimension;
  \<open>noobj_mask\<close> is cleared at the box's batch row and cell for the anchors it selects.\<close>

definition ignore_step :: "real \<Rightarrow> slot \<times> real list \<Rightarrow> (slot \<Rightarrow> bool) \<Rightarrow> (slot \<Rightarrow> bool)" where
  "ignore_step thresh q m =
     (case q of ((b_i, _, gj_i, gi_i), anchor_ious) \<Rightarrow>
        index_fill (map (\<lambda>a. (b_i, a, gj_i, gi_i))
                      (filter (\<lambda>a. anchor_ious ! a > thresh) [0..<length anchor_ious]))
          False m)"

text \<open>\<open>pred_cls\<close> is used for its size only, \<open>(nB, nA, nG, _, nC)\<close>, which is the
  argument here. \<open>target\<close> is a two-dimensional tensor given by its rows. The mask
  tensors are created as bytes 0/1 and returned as booleans: they are booleans here.
  The branches follow the source's lines: the slices of lines 83-87, \<open>torch.stack\<close> of
  line 90 (which refuses an empty list), the unpackings of lines 93-98 (each needs two
  columns), the index assignments of lines 100-101 (each index inside its dimension),
  the loop of lines 104-105 (its boolean mask has one entry per anchor and must fit the
  anchor dimension), the assignments of lines 108-118 and the cast of line 119. The IoU
  primitive is taken to return a number for every anchor and box.\<close>

definition build_targets ::
  "(anchor \<Rightarrow> real list \<Rightarrow> real list \<Rightarrow> real) \<Rightarrow> (real \<Rightarrow> real \<Rightarrow> real) \<Rightarrow> yolo_layer \<Rightarrow> nat \<times> nat \<times> nat \<times> nat \<Rightarrow>
   real list list \<Rightarrow> anchor list \<Rightarrow> error + targets" where
  "build_targets iou mul self pred_cls_size target anchs =
     (case pred_cls_size of (nB, nA, nG, nC) \<Rightarrow>
      let n_target_boxes = length target;
          obj_mask0 = (\<lambda>_. False);
          noobj_mask0 = (\<lambda>_. True);
          zeros = (\<lambda>_. 0);
          tcls0 = (\<lambda>_. 0)
      in
      if n_target_boxes > 0 then
        let target_boxes = map (\<lambda>r. take 6 (drop 2 r)) target;
            gxy = map (\<lambda>r. map (\<lambda>v. mul v (real nG)) (take 2 r)) target_boxes;
            gwh = map (\<lambda>r. map (\<lambda>v. mul v (real nG)) (take 2 (drop 2 r))) target_boxes;
            gimre = map (drop 4) target_boxes
        in
        if anchs = [] then Inl RuntimeError
        else
          let ious = map (\<lambda>anchor. map2 (iou anchor) gwh gimre) anchs;
              best_n = map argmax (t2 n_target_boxes ious)
          in
          (case unpack2 (map (\<lambda>r. map long (take 2 r)) target) of Inl e \<Rightarrow> Inl e
           | Inr (b, target_labels) \<Rightarrow>
          (case unpack2 gxy of Inl e \<Rightarrow> Inl e | Inr (gx, gy) \<Rightarrow>
          (case unpack2 gwh of Inl e \<Rightarrow> Inl e | Inr (gw, gh) \<Rightarrow>
          (case unpack2 gimre of Inl e \<Rightarrow> Inl e | Inr (gim, gre) \<Rightarrow>
          (case unpack2 (map (map long) gxy) of Inl e \<Rightarrow> Inl e | Inr (gi, gj) \<Rightarrow>
          (case index4 nB nA nG b best_n gj gi of Inl e \<Rightarrow> Inl e | Inr idx \<Rightarrow>
             let obj_mask1 = index_fill idx True obj_mask0;
                 noobj_mask1 = index_fill idx False noobj_mask0
             in
             if length anchs \<noteq> nA then Inl IndexError
             else
               let noobj_mask2 =
                     fold (ignore_step (ignore_thresh self)) (zip idx (t2 n_target_boxes ious))
                       noobj_mask1;
                   tx1 = index_put idx (map (\<lambda>v. v - real_of_int \<lfloor>v\<rfloor>) gx) zeros;
                   ty1 = index_put idx (map (\<lambda>v. v - real_of_int \<lfloor>v\<rfloor>) gy) zeros;
                   tw1 = index_put idx
                           (map2 (\<lambda>v a. ln (v / fst (anchs ! a) + 1 / 10 ^ 16)) gw best_n) zeros;
                   th1 = index_put idx
                           (map2 (\<lambda>v a. ln (v / fst (snd (anchs ! a)) + 1 / 10 ^ 16)) gh best_n) zeros;
                   tim1 = index_put idx gim zeros;
                   tre1 = index_put idx gre zeros
               in
               (case collect (map (tindex nC) target_labels) of Inl e \<Rightarrow> Inl e
                | Inr labels \<Rightarrow>
                  let tcls1 = index_fill (zip idx labels) 1 tcls0;
                      tconf1 = (\<lambda>p. if obj_mask1 p then 1 else 0)
                  in Inr \<lparr> obj_mask = obj_mask1, noobj_mask = noobj_mask2,
                            tx = tx1, ty = ty1, tw = tw1, th = th1, tim = tim1, tre = tre1,
                            tcls = tcls1, tconf = tconf1 \<rparr>)))))))
      else
        Inr \<lparr> obj_mask = obj_mask0, noobj_mask = noobj_mask0,
              tx = zeros, ty = zeros, tw = zeros, th = zeros, tim = zeros, tre = zeros,
              tcls = tcls0, tconf = (\<lambda>p. if obj_mask0 p then 1 else 0) \<rparr>)"

subsection \<open>forward\<close>

text \<open>Lines 134-135: \<open>x.view(num_samples, nA, nC + 7, g, g)\<close> reads the entries of \<open>x\<close>
  in row-major order under the new shape, and \<open>permute(0, 1, 3, 4, 2)\<close> moves the
  channel to the last index: entry \<open>[n, a, i, j, c]\<close> of \<open>prediction\<close>.\<close>

definition prediction :: "tensor \<Rightarrow> nat \<Rightarrow> nat \<Rightarrow> nat \<Rightarrow> nat \<Rightarrow> nat \<Rightarrow> nat \<Rightarrow> nat \<Rightarrow> nat \<Rightarrow> real" where
  "prediction x nA nC g n a i j c = data x ! ((((n * nA + a) * (nC + 7) + c) * g + i) * g + j)"

text \<open>Lines 139-140, the centre transform.\<close>

definition center :: "yolo_layer \<Rightarrow> real \<Rightarrow> real" where
  "center self v = sigmoid v * scale_x_y self - 0.5 * (scale_x_y self - 1)"

text \<open>Broadcasting a cached grid of shape \<open>(1, 1, g', g')\<close>, or anchor sizes of shape
  \<open>(1, nA', 1, 1)\<close>, into a tensor of shape \<open>(N, nA, g, g)\<close>: the sizes agree or the
  cached one is 1.\<close>

definition expand_grid :: "nat \<Rightarrow> real list list \<Rightarrow> error + (nat \<Rightarrow> nat \<Rightarrow> real)" where
  "expand_grid g m =
     (if length m = g then Inr (\<lambda>i j. m ! i ! j)
      else if length m = 1 then Inr (\<lambda>i j. m ! 0 ! 0)
      else Inl RuntimeError)"

definition expand_anchor :: "nat \<Rightarrow> real list \<Rightarrow> error + (nat \<Rightarrow> real)" where
  "expand_anchor nA v =
     (if length v = nA then Inr (\<lambda>a. v ! a)
      else if length v = 1 then Inr (\<lambda>a. v ! 0)
      else Inl RuntimeError)"

text \<open>Lines 154-160: the six entries of \<open>pred_boxes[n, a, i, j]\<close>. Reading an attribute
  that \<open>compute_grid_offsets\<close> has not created raises AttributeError.\<close>

definition pred_boxes ::
  "yolo_layer \<Rightarrow> (nat \<Rightarrow> nat \<Rightarrow> nat \<Rightarrow> nat \<Rightarrow> nat \<Rightarrow> real) \<Rightarrow> nat \<Rightarrow> nat \<Rightarrow>
   error + (nat \<Rightarrow> nat \<Rightarrow> nat \<Rightarrow> nat \<Rightarrow> real list)" where
  "pred_boxes self P nA g =
     (case grid_x self of None \<Rightarrow> Inl AttributeError | Some gxs \<Rightarrow>
     (case expand_grid g gxs of Inl e \<Rightarrow> Inl e | Inr gx \<Rightarrow>
     (case grid_y self of None \<Rightarrow> Inl AttributeError | Some gys \<Rightarrow>
     (case expand_grid g gys of Inl e \<Rightarrow> Inl e | Inr gy \<Rightarrow>
     (case anchor_w self of None \<Rightarrow> Inl AttributeError | Some aws \<Rightarrow>
     (case expand_anchor nA aws of Inl e \<Rightarrow> Inl e | Inr aw \<Rightarrow>
     (case anchor_h self of None \<Rightarrow> Inl AttributeError | Some ahs \<Rightarrow>
     (case expand_anchor nA ahs of Inl e \<Rightarrow> Inl e | Inr ah \<Rightarrow>
        Inr (\<lambda>n a i j.
          [ center self (P n a i j 0) + gx i j,
            center self (P n a i j 1) + gy i j,
            exp (P n a i j 2) * aw a,
            exp (P n a i j 3) * ah a,
            P n a i j 4,
            P n a i j 5 ])))))))))"

text \<open>Row-major positions: \<open>.view(num_samples, -1, k)\<close> of a contiguous tensor of shape
  \<open>(N, nA, g, g, k)\<close> numbers the boxes of one sample by \<open>(a * g + i) * g + j\<close>, and a
  boolean mask of shape \<open>(N, nA, g, g)\<close> selects in the order of the flat index.\<close>

definition cell_of :: "nat \<Rightarrow> nat \<Rightarrow> nat \<times> nat \<times> nat" where
  "cell_of g m = (m div (g * g), (m div g) mod g, m mod g)"

definition all_slots :: "nat \<Rightarrow> nat \<Rightarrow> nat \<Rightarrow> slot list" where
  "all_slots nB nA g =
     map (\<lambda>m. (m div (nA * g * g), cell_of g (m mod (nA * g * g)))) [0..<nB * nA * g * g]"

definition masked :: "(slot \<Rightarrow> bool) \<Rightarrow> slot list \<Rightarrow> (slot \<Rightarrow> 'a) \<Rightarrow> 'a list" where
  "masked m slots t = map t (filter m slots)"

text \<open>Lines 162-167: the first four entries of a box times the stride, its two
  orientation entries, the confidence and the class scores.\<close>

definition output_of ::
  "yolo_layer \<Rightarrow> (nat \<Rightarrow> nat \<Rightarrow> nat \<Rightarrow> nat \<Rightarrow> nat \<Rightarrow> real) \<Rightarrow> (nat \<Rightarrow> nat \<Rightarrow> nat \<Rightarrow> nat \<Rightarrow> real list) \<Rightarrow>
   nat \<Rightarrow> nat \<Rightarrow> nat \<Rightarrow> nat \<Rightarrow> real list list list" where
  "output_of self P boxes num_samples nA g nC =
     map (\<lambda>n. map (\<lambda>m. case cell_of g m of (a, i, j) \<Rightarrow>
                 map (\<lambda>v. v * stride self) (take 4 (boxes n a i j))
                 @ drop 4 (boxes n a i j)
                 @ [sigmoid (P n a i j 6)]
                 @ map (\<lambda>c. sigmoid (P n a i j (7 + c))) [0..<nC])
              [0..<nA * g * g])
       [0..<num_samples]"

text \<open>Lines 178-189.\<close>

record losses =
  loss_x :: fl
  loss_y :: fl
  loss_w :: fl
  loss_h :: fl
  loss_im :: fl
  loss_re :: fl
  loss_conf :: fl
  loss_cls :: fl
  total_loss :: fl

definition compute_losses ::
  "yolo_layer \<Rightarrow> (nat \<Rightarrow> nat \<Rightarrow> nat \<Rightarrow> nat \<Rightarrow> nat \<Rightarrow> real) \<Rightarrow> nat \<Rightarrow> nat \<Rightarrow> nat \<Rightarrow> nat \<Rightarrow> targets \<Rightarrow> losses" where
  "compute_losses self P num_samples nA g nC t =
     (let slots = all_slots num_samples nA g;
          x = (\<lambda>(n, a, i, j). center self (P n a i j 0));
          y = (\<lambda>(n, a, i, j). center self (P n a i j 1));
          w = (\<lambda>(n, a, i, j). P n a i j 2);
          h = (\<lambda>(n, a, i, j). P n a i j 3);
          im = (\<lambda>(n, a, i, j). P n a i j 4);
          re = (\<lambda>(n, a, i, j). P n a i j 5);
          pred_conf = (\<lambda>(n, a, i, j). sigmoid (P n a i j 6));
          pred_cls = (\<lambda>(n, a, i, j). map (\<lambda>c. sigmoid (P n a i j (7 + c))) [0..<nC]);
          tcls_rows = (\<lambda>p. map (\<lambda>c. tcls t (p, c)) [0..<nC]);
          l_x = mse_loss (masked (obj_mask t) slots x) (masked (obj_mask t) slots (tx t));
          l_y = mse_loss (masked (obj_mask t) slots y) (masked (obj_mask t) slots (ty t));
          l_w = mse_loss (masked (obj_mask t) slots w) (masked (obj_mask t) slots (tw t));
          l_h = mse_loss (masked (obj_mask t) slots h) (masked (obj_mask t) slots (th t));
          l_im = mse_loss (masked (obj_mask t) slots im) (masked (obj_mask t) slots (tim t));
          l_re = mse_loss (masked (obj_mask t) slots re) (masked (obj_mask t) slots (tre t));
          loss_eular = fl_add l_im l_re;
          loss_conf_obj =
            bce_loss (masked (obj_mask t) slots pred_conf) (masked (obj_mask t) slots (tconf t));
          loss_conf_noobj =
            bce_loss (masked (noobj_mask t) slots pred_conf) (masked (noobj_mask t) slots (tconf t));
          l_conf = fl_add (fl_scale (obj_scale self) loss_conf_obj)
                          (fl_scale (noobj_scale self) loss_conf_noobj);
          l_cls = bce_loss (concat (masked (obj_mask t) slots pred_cls))
                           (concat (masked (obj_mask t) slots tcls_rows))
      in \<lparr> loss_x = l_x, loss_y = l_y, loss_w = l_w, loss_h = l_h, loss_im = l_im,
            loss_re = l_re, loss_conf = l_conf, loss_cls = l_cls,
            total_loss =
              fl_add (fl_add (fl_add (fl_add (fl_add (fl_add l_x l_y) l_w) l_h) loss_eular)
                        l_conf) l_cls \<rparr>)"

definition metrics_of :: "losses \<Rightarrow> (string \<times> fl) list" where
  "metrics_of l =
     [(''loss'', total_loss l), (''x'', loss_x l), (''y'', loss_y l), (''w'', loss_w l),
      (''h'', loss_h l), (''im'', loss_im l), (''re'', loss_re l), (''conf'', loss_conf l),
      (''cls'', loss_cls l)]"

text \<open>Lines 154-167 for the layer \<open>s\<close> as the grid update leaves it. The views of
  lines 163-166 infer a dimension, which torch refuses when the other dimensions
  multiply to zero: no sample, or no class.\<close>

definition forward_output :: "yolo_layer \<Rightarrow> tensor \<Rightarrow> nat \<Rightarrow> nat \<Rightarrow> error + real list list list" where
  "forward_output s x num_samples g =
     (let nA = num_anchors s; nC = num_classes s; P = prediction x nA nC g in
      case pred_boxes s P nA g of
        Inl e \<Rightarrow> Inl e
      | Inr boxes \<Rightarrow>
          if num_samples = 0 \<or> nC = 0 then Inl RuntimeError
          else Inr (output_of s P boxes num_samples nA g nC))"

text \<open>Lines 173-202: the targets, the losses and the metrics.\<close>

definition forward_loss ::
  "(anchor \<Rightarrow> real list \<Rightarrow> real list \<Rightarrow> real) \<Rightarrow> (real \<Rightarrow> real \<Rightarrow> real) \<Rightarrow> yolo_layer \<Rightarrow> tensor \<Rightarrow> nat \<Rightarrow> nat \<Rightarrow>
   real list list \<Rightarrow> yolo_layer \<times> (error + fl)" where
  "forward_loss iou mul s x num_samples g tg =
     (let nA = num_anchors s; nC = num_classes s; P = prediction x nA nC g in
      case scaled_anchors s of
        None \<Rightarrow> (s, Inl AttributeError)
      | Some sa \<Rightarrow>
          (case build_targets iou mul s (num_samples, nA, g, nC) tg sa of
             Inl e \<Rightarrow> (s, Inl e)
           | Inr t \<Rightarrow>
               let l = compute_losses s P num_samples nA g nC t
               in (s\<lparr>metrics := metrics_of l\<rparr>, Inr (total_loss l))))"

text \<open>\<open>forward\<close> returns the layer as it leaves it, with the error it raised or the pair
  of the output and the loss. \<open>targets\<close> is \<open>None\<close> or the ground-truth tensor by rows.
  The unpacking of line 132 needs a four-dimensional \<open>x\<close>; the view of line 134 needs
  the number of entries of \<open>x\<close> to be that of the new shape.\<close>

definition forward ::
  "(anchor \<Rightarrow> real list \<Rightarrow> real list \<Rightarrow> real) \<Rightarrow> (real \<Rightarrow> real \<Rightarrow> real) \<Rightarrow> yolo_layer \<Rightarrow> tensor \<Rightarrow> real list list option \<Rightarrow> int \<Rightarrow>
   yolo_layer \<times> (error + real list list list \<times> fl)" where
  "forward iou mul self x targets img =
     (let s1 = self\<lparr>img_size := img\<rparr> in
      if length (shape x) \<noteq> 4 then (s1, Inl ValueError)
      else
        let num_samples = shape x ! 0; g = shape x ! 3 in
        if numel x \<noteq> num_samples * num_anchors s1 * (num_classes s1 + 7) * g * g
        then (s1, Inl RuntimeError)
        else
          (case (if g \<noteq> grid_size s1 then compute_grid_offsets s1 g else (s1, None)) of
             (s2, Some e) \<Rightarrow> (s2, Inl e)
           | (s2, None) \<Rightarrow>
               (case forward_output s2 x num_samples g of
                  Inl e \<Rightarrow> (s2, Inl e)
                | Inr output \<Rightarrow>
                    (case targets of
                       None \<Rightarrow> (s2, Inr (output, Num 0))
                     | Some tg \<Rightarrow>
                         (case forward_loss iou mul s2 x num_samples g tg of
                            (s3, Inl e) \<Rightarrow> (s3, Inl e)
                          | (s3, Inr l) \<Rightarrow> (s3, Inr (output, l)))))))"

text \<open>A caller that goes on calling \<open>forward\<close>, whatever each call returns or raises:
  the layer after a list of calls, each with its input, targets and image size.\<close>

fun forward_calls ::
  "(anchor \<Rightarrow> real list \<Rightarrow> real list \<Rightarrow> real) \<Rightarrow> (real \<Rightarrow> real \<Rightarrow> real) \<Rightarrow> yolo_layer \<Rightarrow>
   (tensor \<times> real list list option \<times> int) list \<Rightarrow> yolo_layer" where
  "forward_calls iou mul self [] = self"
| "forward_calls iou mul self ((x, targets, img) # calls) =
     forward_calls iou mul (fst (forward iou mul self x targets img)) calls"

subsection \<open>Names for the quantities of a ground-truth row\<close>

text \<open>A ground-truth row is \<open>(box_idx, class, x, y, w, l, sin(yaw), cos(yaw))\<close>, as the
  docstring of \<open>forward\<close> has it. The properties below are stated per row; these
  definitions name what a row contributes: its batch index and class, its centre and
  size in grid units, its IoU with every anchor, the anchor of the first highest IoU, the
  position of an anchor in the row's cell (batch index, anchor, floors of the centre), and
  that position for the best anchor.\<close>

definition gt_batch :: "real list \<Rightarrow> int" where
  "gt_batch r = long (r ! 0)"

definition gt_label :: "real list \<Rightarrow> int" where
  "gt_label r = long (r ! 1)"

definition gt_gx :: "(real \<Rightarrow> real \<Rightarrow> real) \<Rightarrow> nat \<Rightarrow> real list \<Rightarrow> real" where
  "gt_gx mul nG r = mul (r ! 2) (real nG)"

definition gt_gy :: "(real \<Rightarrow> real \<Rightarrow> real) \<Rightarrow> nat \<Rightarrow> real list \<Rightarrow> real" where
  "gt_gy mul nG r = mul (r ! 3) (real nG)"

definition gt_gw :: "(real \<Rightarrow> real \<Rightarrow> real) \<Rightarrow> nat \<Rightarrow> real list \<Rightarrow> real" where
  "gt_gw mul nG r = mul (r ! 4) (real nG)"

definition gt_gh :: "(real \<Rightarrow> real \<Rightarrow> real) \<Rightarrow> nat \<Rightarrow> real list \<Rightarrow> real" where
  "gt_gh mul nG r = mul (r ! 5) (real nG)"

definition gt_ious ::
  "(anchor \<Rightarrow> real list \<Rightarrow> real list \<Rightarrow> real) \<Rightarrow> (real \<Rightarrow> real \<Rightarrow> real) \<Rightarrow> anchor list \<Rightarrow> nat \<Rightarrow> real list \<Rightarrow> real list" where
  "gt_ious iou mul anchs nG r = map (\<lambda>anchor. iou anchor [gt_gw mul nG r, gt_gh mul nG r] [r ! 6, r ! 7]) anchs"

definition gt_best_n ::
  "(anchor \<Rightarrow> real list \<Rightarrow> real list \<Rightarrow> real) \<Rightarrow> (real \<Rightarrow> real \<Rightarrow> real) \<Rightarrow> anchor list \<Rightarrow> nat \<Rightarrow> real list \<Rightarrow> nat" where
  "gt_best_n iou mul anchs nG r = argmax (gt_ious iou mul anchs nG r)"

definition gt_cell :: "(real \<Rightarrow> real \<Rightarrow> real) \<Rightarrow> nat \<Rightarrow> real list \<Rightarrow> nat \<Rightarrow> slot" where
  "gt_cell mul nG r a = (nat (gt_batch r), a, nat \<lfloor>gt_gy mul nG r\<rfloor>, nat \<lfloor>gt_gx mul nG r\<rfloor>)"

definition gt_slot ::
  "(anchor \<Rightarrow> real list \<Rightarrow> real list \<Rightarrow> real) \<Rightarrow> (real \<Rightarrow> real \<Rightarrow> real) \<Rightarrow> anchor list \<Rightarrow> nat \<Rightarrow> real list \<Rightarrow> slot" where
  "gt_slot iou mul anchs nG r = gt_cell mul nG r (gt_best_n iou mul anchs nG r)"

text \<open>A row that the tensors of shape \<open>(nB, nA, nG, nG)\<close> and \<open>nC\<close> classes can hold:
  eight fields, a batch index and a class that are not negative and below the sizes,
  and a grid-unit centre, as line 85 computes it, that is not negative and falls into a
  cell of the grid.\<close>

definition gt_ok :: "(real \<Rightarrow> real \<Rightarrow> real) \<Rightarrow> nat \<Rightarrow> nat \<Rightarrow> nat \<Rightarrow> real list \<Rightarrow> bool" where
  "gt_ok mul nB nG nC r =
     (length r = 8 \<and> 0 \<le> gt_batch r \<and> gt_batch r < int nB \<and>
      0 \<le> gt_label r \<and> gt_label r < int nC \<and>
      0 \<le> gt_gx mul nG r \<and> \<lfloor>gt_gx mul nG r\<rfloor> < int nG \<and>
      0 \<le> gt_gy mul nG r \<and> \<lfloor>gt_gy mul nG r\<rfloor> < int nG)"

text \<open>What \<open>build_targets\<close> computes, written per row: the index list is the list of the
  rows' positions, and every tensor is the initial one after the writes of lines 100-118.
  The lemma \<open>build_targets_rows\<close> proves that the source's column-wise computation
  gives this on rows that fit.\<close>

definition rows_targets ::
  "(anchor \<Rightarrow> real list \<Rightarrow> real list \<Rightarrow> real) \<Rightarrow> (real \<Rightarrow> real \<Rightarrow> real) \<Rightarrow> real \<Rightarrow> nat \<Rightarrow> real list list \<Rightarrow> anchor list \<Rightarrow> targets" where
  "rows_targets iou mul thresh nG target anchs =
     (let idx = map (gt_slot iou mul anchs nG) target in
      \<lparr> obj_mask = index_fill idx True (\<lambda>_. False),
        noobj_mask = fold (ignore_step thresh) (zip idx (map (gt_ious iou mul anchs nG) target))
                       (index_fill idx False (\<lambda>_. True)),
        tx = index_put idx (map (\<lambda>r. gt_gx mul nG r - real_of_int \<lfloor>gt_gx mul nG r\<rfloor>) target) (\<lambda>_. 0),
        ty = index_put idx (map (\<lambda>r. gt_gy mul nG r - real_of_int \<lfloor>gt_gy mul nG r\<rfloor>) target) (\<lambda>_. 0),
        tw = index_put idx
               (map (\<lambda>r. ln (gt_gw mul nG r / fst (anchs ! gt_best_n iou mul anchs nG r) + 1 / 10 ^ 16)) target)
               (\<lambda>_. 0),
        th = index_put idx
               (map (\<lambda>r. ln (gt_gh mul nG r / fst (snd (anchs ! gt_best_n iou mul anchs nG r)) + 1 / 10 ^ 16))
                  target)
               (\<lambda>_. 0),
        tim = index_put idx (map (\<lambda>r. r ! 6) target) (\<lambda>_. 0),
        tre = index_put idx (map (\<lambda>r. r ! 7) target) (\<lambda>_. 0),
        tcls = index_fill (zip idx (map (\<lambda>r. nat (gt_label r)) target)) 1 (\<lambda>_. 0),
        tconf = (\<lambda>p. if index_fill idx True (\<lambda>_. False) p then 1 else 0) \<rparr>)"

subsection \<open>An IoU to instantiate the parameter\<close>

text \<open>The overlap of two axis-aligned boxes with a common centre, by width and height
  only. It stands for the external primitive where a statement is evaluated on concrete
  boxes.\<close>

definition aligned_iou :: "anchor \<Rightarrow> real list \<Rightarrow> real list \<Rightarrow> real" where
  "aligned_iou a wh imre =
     (case a of (w, h, im, re) \<Rightarrow>
        let inter = min w (wh ! 0) * min h (wh ! 1)
        in inter / (w * h + wh ! 0 * wh ! 1 - inter))"

text \<open>The product without rounding. It is the float product of lines 85-86 wherever
  that product is exact, as it is for the rows below: their fields are small multiples of
  powers of two, and the grid sizes are 2 and 8.\<close>

definition exact_mul :: "real \<Rightarrow> real \<Rightarrow> real" where
  "exact_mul a b = a * b"

text \<open>A layer and an input for the same purpose, those of the end-to-end scenario of
  the specification: one class, the anchor \<open>(2, 2, 0, 1)\<close>, one sample on a grid of
  size 2, all raw predictions 0.\<close>

definition example_layer :: yolo_layer where
  "example_layer = YoloLayer_init 1 [(2, 2, 0, 1)] 8 1 (1/2)"

definition example_input :: tensor where
  "example_input = \<lparr> shape = [1, 8, 2, 2], data = replicate 32 0 \<rparr>"

subsection \<open>What the constructor and \<open>forward\<close> maintain\<close>

text \<open>A layer as the constructor makes it and \<open>forward\<close> leaves it (lemmas
  \<open>layer_inv_init\<close> and \<open>layer_inv_forward\<close>): \<open>num_anchors\<close> is the number of anchors,
  a cached grid has the cached grid size unless that is 0, and the cached anchor widths
  and heights are the columns of the cached scaled anchors, one per anchor. On such a
  layer the additions and products of lines 155-158 combine tensors of equal sizes.\<close>

definition layer_inv :: "yolo_layer \<Rightarrow> bool" where
  "layer_inv s \<longleftrightarrow>
     num_anchors s = length (anchors s) \<and>
     (case grid_x s of None \<Rightarrow> True | Some m \<Rightarrow> grid_size s = 0 \<or> length m = grid_size s) \<and>
     (case grid_y s of None \<Rightarrow> True | Some m \<Rightarrow> grid_size s = 0 \<or> length m = grid_size s) \<and>
     (case anchor_w s of None \<Rightarrow> True
      | Some v \<Rightarrow> (case scaled_anchors s of None \<Rightarrow> False
                   | Some sa \<Rightarrow> length sa = num_anchors s \<and> v = map (\<lambda>(w, h, im, re). w) sa)) \<and>
     (case anchor_h s of None \<Rightarrow> True
      | Some v \<Rightarrow> (case scaled_anchors s of None \<Rightarrow> False
                   | Some sa \<Rightarrow> length sa = num_anchors s \<and> v = map (\<lambda>(w, h, im, re). h) sa))"

section \<open>Properties\<close>

subsection \<open>Primitives\<close>

lemma argmax_less: "vs \<noteq> [] \<Longrightarrow> argmax vs < length vs"
proof (induction vs)
  case Nil then show ?case by simp
next
  case (Cons v vs)
  show ?case
  proof (cases "list_all (\<lambda>u. u \<le> v) vs")
    case True then show ?thesis by simp
  next
    case False
    then have "vs \<noteq> []" by auto
    with Cons.IH False show ?thesis by simp
  qed
qed



lemma index_fill_apply: "index_fill idx v t p = (if p \<in> set idx then v else t p)"
  unfolding index_fill_def by (induction idx arbitrary: t) auto

lemma fold_upd_notin:
  "p \<notin> fst ` set qs \<Longrightarrow> fold (\<lambda>(p, v) m. m(p := v)) qs t p = t p"
  by (induction qs arbitrary: t) auto

lemma index_put_notin: "p \<notin> set idx \<Longrightarrow> index_put idx vals t p = t p"
  unfolding index_put_def
  by (rule fold_upd_notin) (auto dest: set_zip_leftD)

lemma index_put_last:
  "length idx = length vals \<Longrightarrow> k < length idx \<Longrightarrow>
   (\<forall>k'. k < k' \<and> k' < length idx \<longrightarrow> idx ! k' \<noteq> idx ! k) \<Longrightarrow>
   index_put idx vals t (idx ! k) = vals ! k"
proof (induction idx arbitrary: vals t k)
  case Nil then show ?case by simp
next
  case (Cons p idx)
  then obtain v vs where vals: "vals = v # vs" by (cases vals) auto
  show ?case
  proof (cases k)
    case 0
    have "p \<notin> set idx" using Cons.prems(3) 0 by (fastforce simp: in_set_conv_nth)
    then have "index_put idx vs (t(p := v)) p = (t(p := v)) p" by (rule index_put_notin)
    then show ?thesis using 0 vals by (simp add: index_put_def)
  next
    case (Suc j)
    have "index_put idx vs (t(p := v)) (idx ! j) = vs ! j"
    proof (rule Cons.IH)
      show "length idx = length vs" using Cons.prems vals by simp
      show "j < length idx" using Cons.prems Suc by simp
      show "\<forall>k'. j < k' \<and> k' < length idx \<longrightarrow> idx ! k' \<noteq> idx ! j"
      proof (intro allI impI)
        fix k' assume "j < k' \<and> k' < length idx"
        then have "k < Suc k' \<and> Suc k' < length (p # idx)" using Suc by simp
        with Cons.prems(3) have "(p # idx) ! Suc k' \<noteq> (p # idx) ! k" by blast
        then show "idx ! k' \<noteq> idx ! j" using Suc by simp
      qed
    qed
    then show ?thesis using Suc vals by (simp add: index_put_def)
  qed
qed

lemma collect_map_Inr: "collect (map Inr vs) = Inr vs"
  by (induction vs) auto

lemma collect_InrD: "collect rs = Inr vs \<Longrightarrow> rs = map Inr vs"
  by (induction rs arbitrary: vs rule: collect.induct) (auto split: sum.splits)

lemma tindex_nonneg: "0 \<le> i \<Longrightarrow> i < int n \<Longrightarrow> tindex n i = Inr (nat i)"
  by (simp add: tindex_def)



subsection \<open>build\_targets on rows that fit\<close>

lemma len8: "length r = 8 \<Longrightarrow> r = [r!0, r!1, r!2, r!3, r!4, r!5, r!6, r!7]"
  by (rule nth_equalityI) (auto simp: nth_Cons' numeral_eq_Suc less_Suc_eq)

lemma unpack2_pairs: "unpack2 (map (\<lambda>r. [f r, g r]) xs) = Inr (map f xs, map g xs)"
  by (simp add: unpack2_def list_all_iff comp_def)

lemma t2_ious:
  "length ws = n \<Longrightarrow> length qs = n \<Longrightarrow>
   t2 n (map (\<lambda>anchor. map2 (iou anchor) ws qs) anchs)
   = map2 (\<lambda>w q. map (\<lambda>anchor. iou anchor w q) anchs) ws qs"
  by (rule nth_equalityI) (auto simp: t2_def)

lemma gt_ok_fields:
  assumes "gt_ok mul nB nG nC r"
  shows "take 6 (drop 2 r) = [r!2, r!3, r!4, r!5, r!6, r!7]"
    and "take 2 r = [r!0, r!1]"
proof -
  from assms have "length r = 8" by (simp add: gt_ok_def)
  then have r: "r = [r!0, r!1, r!2, r!3, r!4, r!5, r!6, r!7]" by (rule len8)
  show "take 6 (drop 2 r) = [r!2, r!3, r!4, r!5, r!6, r!7]"
    by (subst r) (simp add: numeral_eq_Suc)
  show "take 2 r = [r!0, r!1]"
    by (subst r) (simp add: numeral_eq_Suc)
qed

lemma long_nonneg: "0 \<le> v \<Longrightarrow> long v = \<lfloor>v\<rfloor>"
  by (simp add: long_def)

lemma slot_index_ok:
  assumes "gt_ok mul nB nG nC r" "anchs \<noteq> []" "length anchs = nA"
  shows "slot_index nB nA nG (gt_batch r, gt_best_n iou mul anchs nG r, long (gt_gy mul nG r), long (gt_gx mul nG r))
         = Inr (gt_slot iou mul anchs nG r)"
proof -
  from assms(1) have b: "0 \<le> gt_batch r" "gt_batch r < int nB"
    by (auto simp: gt_ok_def gt_batch_def long_def)
  from assms(1) have x: "0 \<le> gt_gx mul nG r" "\<lfloor>gt_gx mul nG r\<rfloor> < int nG"
    by (auto simp: gt_ok_def gt_gx_def exact_mul_def)
  from assms(1) have y: "0 \<le> gt_gy mul nG r" "\<lfloor>gt_gy mul nG r\<rfloor> < int nG"
    by (auto simp: gt_ok_def gt_gy_def)
  have a: "gt_best_n iou mul anchs nG r < nA"
    using argmax_less[of "gt_ious iou mul anchs nG r"] assms(2,3)
    by (simp add: gt_best_n_def gt_ious_def)
  show ?thesis
    using a b x y
    by (simp add: slot_index_def gt_slot_def gt_cell_def tindex_nonneg long_nonneg)
qed

lemma build_targets_rows:
  assumes ne: "target \<noteq> []"
    and ok: "list_all (gt_ok mul nB nG nC) target"
    and anchs: "anchs \<noteq> []" "length anchs = nA"
  shows "build_targets iou mul self (nB, nA, nG, nC) target anchs
         = Inr (rows_targets iou mul (ignore_thresh self) nG target anchs)"
proof -
  have okr: "\<And>r. r \<in> set target \<Longrightarrow> gt_ok mul nB nG nC r"
    using ok by (simp add: list_all_iff)
  have tb: "map (\<lambda>r. take 6 (drop 2 r)) target = map (\<lambda>r. [r!2, r!3, r!4, r!5, r!6, r!7]) target"
    by (rule map_cong[OF refl]) (rule gt_ok_fields(1)[OF okr])
  have bl: "map (\<lambda>r. map long (take 2 r)) target = map (\<lambda>r. [gt_batch r, gt_label r]) target"
    by (rule map_cong[OF refl]) (simp add: gt_ok_fields(2)[OF okr] gt_batch_def gt_label_def)
  have gxy: "map (\<lambda>r. map (\<lambda>v. mul v (real nG)) (take 2 r)) (map (\<lambda>r. [r!2, r!3, r!4, r!5, r!6, r!7]) target)
             = map (\<lambda>r. [gt_gx mul nG r, gt_gy mul nG r]) target"
    by (simp add: gt_gx_def exact_mul_def gt_gy_def)
  have gwh: "map (\<lambda>r. map (\<lambda>v. mul v (real nG)) (take 2 (drop 2 r)))
               (map (\<lambda>r. [r!2, r!3, r!4, r!5, r!6, r!7]) target)
             = map (\<lambda>r. [gt_gw mul nG r, gt_gh mul nG r]) target"
    by (simp add: gt_gw_def exact_mul_def gt_gh_def)
  have gimre: "map (drop 4) (map (\<lambda>r. [r!2, r!3, r!4, r!5, r!6, r!7]) target)
               = map (\<lambda>r. [r!6, r!7]) target"
    by simp
  have lxy: "map (map long) (map (\<lambda>r. [gt_gx mul nG r, gt_gy mul nG r]) target)
             = map (\<lambda>r. [long (gt_gx mul nG r), long (gt_gy mul nG r)]) target"
    by simp
  have ious: "t2 (length target)
                (map (\<lambda>anchor. map2 (iou anchor) (map (\<lambda>r. [gt_gw mul nG r, gt_gh mul nG r]) target)
                                 (map (\<lambda>r. [r!6, r!7]) target)) anchs)
              = map (gt_ious iou mul anchs nG) target"
    by (subst t2_ious) (auto simp: gt_ious_def zip_map_map zip_same_conv_map comp_def)
  have idx: "index4 nB nA nG (map gt_batch target) (map argmax (map (gt_ious iou mul anchs nG) target))
                 (map (\<lambda>r. long (gt_gy mul nG r)) target) (map (\<lambda>r. long (gt_gx mul nG r)) target)
             = Inr (map (gt_slot iou mul anchs nG) target)"
  proof -
    have "map (slot_index nB nA nG)
            (zip (map gt_batch target) (zip (map argmax (map (gt_ious iou mul anchs nG) target))
               (zip (map (\<lambda>r. long (gt_gy mul nG r)) target) (map (\<lambda>r. long (gt_gx mul nG r)) target))))
          = map (\<lambda>r. slot_index nB nA nG
                     (gt_batch r, gt_best_n iou mul anchs nG r, long (gt_gy mul nG r), long (gt_gx mul nG r))) target"
      by (simp add: zip_map_map zip_same_conv_map comp_def gt_best_n_def)
    also have "\<dots> = map Inr (map (gt_slot iou mul anchs nG) target)"
      unfolding map_map comp_def
      by (rule map_cong[OF refl]) (rule slot_index_ok[OF okr anchs])
    finally show ?thesis unfolding index4_def by (simp only: collect_map_Inr)
  qed
  have lab: "collect (map (tindex nC) (map gt_label target))
             = Inr (map (\<lambda>r. nat (gt_label r)) target)"
  proof -
    have "map (tindex nC) (map gt_label target) = map Inr (map (\<lambda>r. nat (gt_label r)) target)"
      unfolding map_map comp_def
    proof (rule map_cong[OF refl])
      fix r assume "r \<in> set target"
      from okr[OF this] have "0 \<le> gt_label r" "gt_label r < int nC"
        by (auto simp: gt_ok_def gt_label_def long_def)
      then show "tindex nC (gt_label r) = Inr (nat (gt_label r))" by (rule tindex_nonneg)
    qed
    then show ?thesis by (simp only: collect_map_Inr)
  qed
  show ?thesis
    unfolding build_targets_def rows_targets_def
    apply (simp only: prod.case Let_def tb gxy gwh gimre lxy ious bl unpack2_pairs)
    apply (simp only: map_map[symmetric, of argmax] prod.case idx sum.case)
    apply (simp only: lab sum.case)
    apply (simp add: ne anchs zip_map_map zip_same_conv_map comp_def gt_best_n_def)
    done
qed

lemma rows_obj_mask:
  "obj_mask (rows_targets iou mul thresh nG target anchs) p \<longleftrightarrow> p \<in> gt_slot iou mul anchs nG ` set target"
  by (simp add: rows_targets_def Let_def index_fill_apply)


subsection \<open>Assignment of ground truth to positions\<close>



lemma gt_ok_example: "gt_ok exact_mul 1 2 1 [0, 0, 1/2, 1/2, 1/4, 1/4, 0, 1]"
  by (simp add: gt_ok_def gt_batch_def gt_label_def gt_gx_def exact_mul_def gt_gy_def long_def)




subsection \<open>Concrete rows used to instantiate the statements\<close>


lemma ious_example2:
  "gt_ious aligned_iou exact_mul [(1, 1, 0, 1), (1/2, 1/2, 0, 1), (2, 2, 0, 1)] 8 [0, 0, 11/32, 21/32, 1/16, 1/16, 0, 1]
   = [1/4, 1, 1/16]"
  by (simp add: gt_ious_def aligned_iou_def gt_gw_def exact_mul_def gt_gh_def Let_def)

lemma best_example2:
  "gt_best_n aligned_iou exact_mul [(1, 1, 0, 1), (1/2, 1/2, 0, 1), (2, 2, 0, 1)] 8 [0, 0, 11/32, 21/32, 1/16, 1/16, 0, 1] = 1"
  by (simp add: gt_best_n_def ious_example2)

lemma cell_example2: "gt_cell exact_mul 8 [0, 0, 11/32, 21/32, 1/16, 1/16, 0, 1] a = (0, a, 5, 2)"
  by (simp add: gt_cell_def gt_batch_def gt_gx_def exact_mul_def gt_gy_def long_def)

lemma gt_ok_dup1: "gt_ok exact_mul 1 2 2 [0, 0, 1/8, 1/8, 1/4, 1/4, 0, 1]"
  by (simp add: gt_ok_def gt_batch_def gt_label_def gt_gx_def exact_mul_def gt_gy_def long_def)

lemma gt_ok_dup2: "gt_ok exact_mul 1 2 2 [0, 1, 1/4, 1/8, 1/4, 1/4, 0, 1]"
  by (simp add: gt_ok_def gt_batch_def gt_label_def gt_gx_def exact_mul_def gt_gy_def long_def)

lemma slot_dup1: "gt_slot iou exact_mul [(1, 1, 0, 1)] 2 [0, 0, 1/8, 1/8, 1/4, 1/4, 0, 1] = (0, 0, 0, 0)"
  by (simp add: gt_slot_def gt_cell_def gt_best_n_def gt_ious_def gt_batch_def gt_gx_def exact_mul_def gt_gy_def long_def)

lemma slot_dup2: "gt_slot iou exact_mul [(1, 1, 0, 1)] 2 [0, 1, 1/4, 1/8, 1/4, 1/4, 0, 1] = (0, 0, 0, 0)"
  by (simp add: gt_slot_def gt_cell_def gt_best_n_def gt_ious_def gt_batch_def gt_gx_def exact_mul_def gt_gy_def long_def)

subsection \<open>The two masks\<close>

lemma fold_ignore_step_imp: "fold (ignore_step thresh) qs m p \<Longrightarrow> m p"
proof (induction qs arbitrary: m)
  case Nil then show ?case by simp
next
  case (Cons q qs)
  from Cons.IH[of "ignore_step thresh q m"] Cons.prems have "ignore_step thresh q m p" by simp
  then show ?case by (cases q) (auto simp: ignore_step_def index_fill_apply split: prod.splits if_splits)
qed

text \<open>Claim C10. Whatever the input, when \<open>build_targets\<close> returns, no position has
  both \<open>obj_mask\<close> and \<open>noobj_mask\<close> true: line 101 clears \<open>noobj_mask\<close> at every index
  that line 100 sets in \<open>obj_mask\<close>, and the loop of lines 104-105 only clears.\<close>

theorem build_targets_masks_disjoint:
  "build_targets iou mul self sz target anchs = Inr t \<Longrightarrow> \<not> (obj_mask t p \<and> noobj_mask t p)"
proof
  assume bt: "build_targets iou mul self sz target anchs = Inr t"
    and both: "obj_mask t p \<and> noobj_mask t p"
  obtain nB nA nG nC where sz: "sz = (nB, nA, nG, nC)" by (cases sz) auto
  show False
  proof (cases "target = []")
    case True
    with bt sz have "obj_mask t = (\<lambda>_. False)" by (auto simp: build_targets_def Let_def)
    with both show False by simp
  next
    case False
    with bt sz obtain idx qs where
      "obj_mask t = index_fill idx True (\<lambda>_. False)"
      "noobj_mask t = fold (ignore_step (ignore_thresh self)) qs (index_fill idx False (\<lambda>_. True))"
      by (auto simp: build_targets_def Let_def split: sum.splits prod.splits if_splits)
    with both have "p \<in> set idx" "index_fill idx False (\<lambda>_. True) p"
      by (auto simp: index_fill_apply dest: fold_ignore_step_imp split: if_splits)
    then show False by (simp add: index_fill_apply)
  qed
qed

theorem build_targets_masks_disjoint_witness:
  "\<exists>t. build_targets aligned_iou exact_mul (YoloLayer_init 2 [(2, 2, 0, 1)] 2 1 (1/2)) (1, 1, 2, 2)
          [[0, 0, 1/8, 1/8, 1/4, 1/4, 0, 1], [0, 1, 1/4, 1/8, 1/4, 1/4, 0, 1]] [(1, 1, 0, 1)] = Inr t \<and>
        obj_mask t (0, 0, 0, 0) \<and> \<not> noobj_mask t (0, 0, 0, 0)"
proof -
  let ?r1 = "[0, 0, 1/8, 1/8, 1/4, 1/4, 0, 1] :: real list"
  let ?r2 = "[0, 1, 1/4, 1/8, 1/4, 1/4, 0, 1] :: real list"
  let ?A = "[(1, 1, 0, 1)] :: anchor list"
  let ?L = "YoloLayer_init 2 [(2, 2, 0, 1)] 2 1 (1/2)"
  let ?t = "rows_targets aligned_iou exact_mul (ignore_thresh ?L) 2 [?r1, ?r2] ?A"
  have h1: "[?r1, ?r2] \<noteq> []" by simp
  have h2: "list_all (gt_ok exact_mul 1 2 2) [?r1, ?r2]"
    by (simp only: list.pred_inject gt_ok_dup1 gt_ok_dup2 simp_thms)
  have h3: "?A \<noteq> []" by simp
  have h4: "length ?A = 1" by simp
  have bt: "build_targets aligned_iou exact_mul ?L (1, 1, 2, 2) [?r1, ?r2] ?A = Inr ?t"
    using h1 h2 h3 h4 by (rule build_targets_rows)
  have obj: "obj_mask ?t (0, 0, 0, 0)"
    by (simp add: rows_obj_mask slot_dup1)
  from build_targets_masks_disjoint[OF bt, of "(0, 0, 0, 0)"] obj
  have "\<not> noobj_mask ?t (0, 0, 0, 0)" by simp
  with bt obj show ?thesis by simp
qed




subsection \<open>Regression targets\<close>

lemma rows_tcls:
  "tcls (rows_targets iou mul thresh nG target anchs) (p, c)
   = (if \<exists>r \<in> set target. gt_slot iou mul anchs nG r = p \<and> nat (gt_label r) = c then 1 else 0)"
proof -
  have "set (zip (map (gt_slot iou mul anchs nG) target) (map (\<lambda>r. nat (gt_label r)) target))
        = (\<lambda>r. (gt_slot iou mul anchs nG r, nat (gt_label r))) ` set target"
    by (simp add: zip_map_map zip_same_conv_map comp_def del: set_zip)
  then show ?thesis
    by (auto simp: rows_targets_def Let_def index_fill_apply simp del: set_zip)
qed

lemma gt_ok_same1: "gt_ok exact_mul 1 2 1 [0, 0, 1/8, 1/8, 1/4, 1/4, 0, 1]"
  by (simp add: gt_ok_def gt_batch_def gt_label_def gt_gx_def gt_gy_def exact_mul_def long_def)

lemma gt_ok_same2: "gt_ok exact_mul 1 2 1 [0, 0, 1/4, 1/8, 1/4, 1/4, 0, 1]"
  by (simp add: gt_ok_def gt_batch_def gt_label_def gt_gx_def gt_gy_def exact_mul_def long_def)

lemma slot_same2: "gt_slot iou exact_mul [(1, 1, 0, 1)] 2 [0, 0, 1/4, 1/8, 1/4, 1/4, 0, 1] = (0, 0, 0, 0)"
  by (simp add: gt_slot_def gt_cell_def gt_best_n_def gt_ious_def gt_batch_def gt_gx_def gt_gy_def
      exact_mul_def long_def)

text \<open>Claim C3, as stated, fails when two boxes share a position: the writes of lines
  108-115 happen in the order of the rows, so the position keeps the values of the later
  box. Here two boxes of class 0 fall on position \<open>(0, 0, 0, 0)\<close>; the first has
  \<open>gx - floor gx = 1/4\<close>, but \<open>tx\<close> is \<open>1/2\<close> there, the value of the second.\<close>

theorem build_targets_shared_slot_counterexample:
  "map_sum id (\<lambda>t. tx t (0, 0, 0, 0))
     (build_targets aligned_iou exact_mul example_layer (1, 1, 2, 1)
        [[0, 0, 1/8, 1/8, 1/4, 1/4, 0, 1], [0, 0, 1/4, 1/8, 1/4, 1/4, 0, 1]] [(1, 1, 0, 1)])
   = Inr (1/2) \<and>
   gt_slot aligned_iou exact_mul [(1, 1, 0, 1)] 2 [0, 0, 1/8, 1/8, 1/4, 1/4, 0, 1] = (0, 0, 0, 0) \<and>
   gt_gx exact_mul 2 [0, 0, 1/8, 1/8, 1/4, 1/4, 0, 1]
     - real_of_int \<lfloor>gt_gx exact_mul 2 [0, 0, 1/8, 1/8, 1/4, 1/4, 0, 1]\<rfloor> = 1/4"
proof -
  let ?r1 = "[0, 0, 1/8, 1/8, 1/4, 1/4, 0, 1] :: real list"
  let ?r2 = "[0, 0, 1/4, 1/8, 1/4, 1/4, 0, 1] :: real list"
  let ?A = "[(1, 1, 0, 1)] :: anchor list"
  have h1: "[?r1, ?r2] \<noteq> []" by simp
  have h2: "list_all (gt_ok exact_mul 1 2 1) [?r1, ?r2]"
    by (simp only: list.pred_inject gt_ok_same1 gt_ok_same2 simp_thms)
  have h3: "?A \<noteq> []" by simp
  have h4: "length ?A = 1" by simp
  have bt: "build_targets aligned_iou exact_mul example_layer (1, 1, 2, 1) [?r1, ?r2] ?A
            = Inr (rows_targets aligned_iou exact_mul (ignore_thresh example_layer) 2 [?r1, ?r2] ?A)"
    using h1 h2 h3 h4 by (rule build_targets_rows)
  have "tx (rows_targets aligned_iou exact_mul (ignore_thresh example_layer) 2 [?r1, ?r2] ?A) (0, 0, 0, 0)
        = 1/2"
    by (simp add: rows_targets_def Let_def index_put_def slot_dup1 slot_same2 gt_gx_def exact_mul_def)
  then show ?thesis
    unfolding bt by (simp add: slot_dup1 gt_gx_def exact_mul_def)
qed

text \<open>Claim C3, amended. Take a non-empty list of ground-truth rows of eight fields,
  each with a batch index in \<open>[0, nB)\<close>, a class in \<open>[0, nC)\<close> and a grid-unit centre in
  \<open>[0, nG) x [0, nG)\<close>, and a non-empty list of \<open>nA\<close> anchors, \<open>nA\<close> being the anchor
  dimension of the tensors. For a row of the list that no later row shares its position
  with, \<open>build_targets\<close> leaves at the row's position: \<open>tx = gx - floor gx\<close>,
  \<open>ty = gy - floor gy\<close>, \<open>tw = log (gw / w + 1e-16)\<close> and \<open>th = log (gh / h + 1e-16)\<close> for
  the width \<open>w\<close> and height \<open>h\<close> of the scaled anchor \<open>best_n\<close>, \<open>tim\<close> and \<open>tre\<close> the
  row's sin and cos; \<open>tcls\<close> is 1 at the row's class and, when every row at that position
  has that class, 0 at the other classes; \<open>tconf\<close> is the float cast of \<open>obj_mask\<close>.\<close>

theorem build_targets_regression_targets:
  assumes "target \<noteq> []"
    and "list_all (gt_ok mul nB nG nC) target"
    and "anchs \<noteq> []" and "length anchs = nA"
    and "k < length target"
    and "\<forall>k'. k < k' \<and> k' < length target \<longrightarrow>
           gt_slot iou mul anchs nG (target ! k') \<noteq> gt_slot iou mul anchs nG (target ! k)"
  shows "\<exists>t. build_targets iou mul self (nB, nA, nG, nC) target anchs = Inr t \<and>
           tx t (gt_slot iou mul anchs nG (target ! k))
             = gt_gx mul nG (target ! k) - real_of_int \<lfloor>gt_gx mul nG (target ! k)\<rfloor> \<and>
           ty t (gt_slot iou mul anchs nG (target ! k))
             = gt_gy mul nG (target ! k) - real_of_int \<lfloor>gt_gy mul nG (target ! k)\<rfloor> \<and>
           tw t (gt_slot iou mul anchs nG (target ! k))
             = ln (gt_gw mul nG (target ! k) / fst (anchs ! gt_best_n iou mul anchs nG (target ! k)) + 1 / 10 ^ 16) \<and>
           th t (gt_slot iou mul anchs nG (target ! k))
             = ln (gt_gh mul nG (target ! k) / fst (snd (anchs ! gt_best_n iou mul anchs nG (target ! k))) + 1 / 10 ^ 16) \<and>
           tim t (gt_slot iou mul anchs nG (target ! k)) = target ! k ! 6 \<and>
           tre t (gt_slot iou mul anchs nG (target ! k)) = target ! k ! 7 \<and>
           tcls t (gt_slot iou mul anchs nG (target ! k), nat (gt_label (target ! k))) = 1 \<and>
           ((\<forall>r \<in> set target. gt_slot iou mul anchs nG r = gt_slot iou mul anchs nG (target ! k) \<longrightarrow>
                               gt_label r = gt_label (target ! k)) \<longrightarrow>
            (\<forall>c. c \<noteq> nat (gt_label (target ! k)) \<longrightarrow>
                 tcls t (gt_slot iou mul anchs nG (target ! k), c) = 0)) \<and>
           (\<forall>p. tconf t p = (if obj_mask t p then 1 else 0))"
proof -
  let ?t = "rows_targets iou mul (ignore_thresh self) nG target anchs"
  let ?idx = "map (gt_slot iou mul anchs nG) target"
  let ?p = "gt_slot iou mul anchs nG (target ! k)"
  have bt: "build_targets iou mul self (nB, nA, nG, nC) target anchs = Inr ?t"
    using assms(1-4) by (rule build_targets_rows)
  have mem: "target ! k \<in> set target" using assms(5) by simp
  have last: "\<forall>k'. k < k' \<and> k' < length ?idx \<longrightarrow> ?idx ! k' \<noteq> ?idx ! k"
    using assms(5,6) by simp
  have put: "\<And>f :: real list \<Rightarrow> real. index_put ?idx (map f target) (\<lambda>_. 0) ?p = f (target ! k)"
  proof -
    fix f :: "real list \<Rightarrow> real"
    have "index_put ?idx (map f target) (\<lambda>_. 0) (?idx ! k) = map f target ! k"
      using assms(5) last by (intro index_put_last) simp_all
    then show "index_put ?idx (map f target) (\<lambda>_. 0) ?p = f (target ! k)"
      using assms(5) by simp
  qed
  have "tx ?t ?p = gt_gx mul nG (target ! k) - real_of_int \<lfloor>gt_gx mul nG (target ! k)\<rfloor>"
    by (simp add: rows_targets_def Let_def put)
  moreover have "ty ?t ?p = gt_gy mul nG (target ! k) - real_of_int \<lfloor>gt_gy mul nG (target ! k)\<rfloor>"
    by (simp add: rows_targets_def Let_def put)
  moreover have "tw ?t ?p
             = ln (gt_gw mul nG (target ! k) / fst (anchs ! gt_best_n iou mul anchs nG (target ! k)) + 1 / 10 ^ 16)"
    by (simp add: rows_targets_def Let_def put)
  moreover have "th ?t ?p
             = ln (gt_gh mul nG (target ! k) / fst (snd (anchs ! gt_best_n iou mul anchs nG (target ! k))) + 1 / 10 ^ 16)"
    by (simp add: rows_targets_def Let_def put)
  moreover have "tim ?t ?p = target ! k ! 6"
    by (simp add: rows_targets_def Let_def put)
  moreover have "tre ?t ?p = target ! k ! 7"
    by (simp add: rows_targets_def Let_def put)
  moreover have "tcls ?t (?p, nat (gt_label (target ! k))) = 1"
    unfolding rows_tcls using mem by auto
  moreover have "(\<forall>r \<in> set target. gt_slot iou mul anchs nG r = ?p \<longrightarrow>
                               gt_label r = gt_label (target ! k)) \<longrightarrow>
            (\<forall>c. c \<noteq> nat (gt_label (target ! k)) \<longrightarrow> tcls ?t (?p, c) = 0)"
    unfolding rows_tcls by auto
  moreover have "\<forall>p. tconf ?t p = (if obj_mask ?t p then 1 else 0)"
    by (simp add: rows_targets_def Let_def)
  ultimately show ?thesis
    using bt by blast
qed

theorem build_targets_regression_targets_witness:
  "list_all (gt_ok exact_mul 1 8 2) [[0, 0, 11/32, 21/32, 1/16, 1/16, 0, 1]] \<and>
   (\<exists>t. build_targets aligned_iou exact_mul (YoloLayer_init 2 [(1, 1, 0, 1), (1/2, 1/2, 0, 1), (2, 2, 0, 1)] 1 1 (1/5))
          (1, 3, 8, 2) [[0, 0, 11/32, 21/32, 1/16, 1/16, 0, 1]]
          [(1, 1, 0, 1), (1/2, 1/2, 0, 1), (2, 2, 0, 1)] = Inr t \<and>
        tx t (0, 1, 5, 2) = 3/4 \<and> ty t (0, 1, 5, 2) = 1/4 \<and>
        tw t (0, 1, 5, 2) = ln (1 + 1 / 10 ^ 16) \<and> th t (0, 1, 5, 2) = ln (1 + 1 / 10 ^ 16) \<and>
        tim t (0, 1, 5, 2) = 0 \<and> tre t (0, 1, 5, 2) = 1 \<and>
        tcls t ((0, 1, 5, 2), 0) = 1 \<and> tcls t ((0, 1, 5, 2), 1) = 0 \<and> tconf t (0, 1, 5, 2) = 1)"
proof -
  let ?r = "[0, 0, 11/32, 21/32, 1/16, 1/16, 0, 1] :: real list"
  let ?A = "[(1, 1, 0, 1), (1/2, 1/2, 0, 1), (2, 2, 0, 1)] :: anchor list"
  let ?L = "YoloLayer_init 2 ?A 1 1 (1/5)"
  have ok: "gt_ok exact_mul 1 8 2 ?r"
    by (simp add: gt_ok_def gt_batch_def gt_label_def gt_gx_def gt_gy_def exact_mul_def long_def)
  have h1: "[?r] \<noteq> []" by simp
  have h2: "list_all (gt_ok exact_mul 1 8 2) [?r]" by (simp only: list.pred_inject ok simp_thms)
  have h3: "?A \<noteq> []" by simp
  have h4: "length ?A = 3" by simp
  have h5: "0 < length [?r]" by simp
  have h6: "\<forall>k'. 0 < k' \<and> k' < length [?r] \<longrightarrow>
              gt_slot aligned_iou exact_mul ?A 8 ([?r] ! k') \<noteq> gt_slot aligned_iou exact_mul ?A 8 ([?r] ! 0)"
    by auto
  have slot: "gt_slot aligned_iou exact_mul ?A 8 ?r = (0, 1, 5, 2)"
    by (simp add: gt_slot_def best_example2 cell_example2)
  have lab: "nat (gt_label ?r) = 0" by (simp add: gt_label_def long_def)
  from build_targets_regression_targets[OF h1 h2 h3 h4 h5 h6, where self = ?L]
  obtain t where bt: "build_targets aligned_iou exact_mul ?L (1, 3, 8, 2) [?r] ?A = Inr t"
    and v: "tx t (gt_slot aligned_iou exact_mul ?A 8 ?r) = gt_gx exact_mul 8 ?r - real_of_int \<lfloor>gt_gx exact_mul 8 ?r\<rfloor>"
      "ty t (gt_slot aligned_iou exact_mul ?A 8 ?r) = gt_gy exact_mul 8 ?r - real_of_int \<lfloor>gt_gy exact_mul 8 ?r\<rfloor>"
      "tw t (gt_slot aligned_iou exact_mul ?A 8 ?r)
         = ln (gt_gw exact_mul 8 ?r / fst (?A ! gt_best_n aligned_iou exact_mul ?A 8 ?r) + 1 / 10 ^ 16)"
      "th t (gt_slot aligned_iou exact_mul ?A 8 ?r)
         = ln (gt_gh exact_mul 8 ?r / fst (snd (?A ! gt_best_n aligned_iou exact_mul ?A 8 ?r)) + 1 / 10 ^ 16)"
      "tim t (gt_slot aligned_iou exact_mul ?A 8 ?r) = ?r ! 6"
      "tre t (gt_slot aligned_iou exact_mul ?A 8 ?r) = ?r ! 7"
      "tcls t (gt_slot aligned_iou exact_mul ?A 8 ?r, nat (gt_label ?r)) = 1"
    and one: "(\<forall>r \<in> set [?r]. gt_slot aligned_iou exact_mul ?A 8 r = gt_slot aligned_iou exact_mul ?A 8 ?r \<longrightarrow>
                    gt_label r = gt_label ?r) \<longrightarrow>
              (\<forall>c. c \<noteq> nat (gt_label ?r) \<longrightarrow> tcls t (gt_slot aligned_iou exact_mul ?A 8 ?r, c) = 0)"
    and conf: "\<forall>p. tconf t p = (if obj_mask t p then 1 else 0)"
    by auto
  from one have zero: "tcls t ((0, 1, 5, 2), 1) = 0"
    unfolding slot lab by simp
  have obj: "obj_mask t (0, 1, 5, 2)"
    using bt build_targets_rows[OF h1 h2 h3 h4, where iou = aligned_iou and self = ?L]
    by (simp add: rows_obj_mask slot)
  show ?thesis
    using h2 bt v conf obj zero
    by (simp add: slot lab best_example2 gt_gx_def exact_mul_def gt_gy_def gt_gw_def gt_gh_def)
qed

section \<open>Properties of forward\<close>

subsection \<open>The layer after a call\<close>

lemma compute_grid_offsets_config:
  "num_classes (fst (compute_grid_offsets s g)) = num_classes s"
  "anchors (fst (compute_grid_offsets s g)) = anchors s"
  "num_anchors (fst (compute_grid_offsets s g)) = num_anchors s"
  "scale_x_y (fst (compute_grid_offsets s g)) = scale_x_y s"
  "ignore_thresh (fst (compute_grid_offsets s g)) = ignore_thresh s"
  by (simp_all add: compute_grid_offsets_def Let_def)

lemma forward_loss_state:
  "fst (forward_loss iou mul s x n g tg) = s \<or> (\<exists>m. fst (forward_loss iou mul s x n g tg) = s\<lparr>metrics := m\<rparr>)"
  by (auto simp: forward_loss_def Let_def split: option.splits sum.splits)

lemma forward_state_view:
  assumes "length (shape x) = 4"
    and "numel x = shape x ! 0 * num_anchors self * (num_classes self + 7) * (shape x ! 3) * (shape x ! 3)"
  shows "fst (forward iou mul self x targets img)
           = fst (if shape x ! 3 \<noteq> grid_size self
                  then compute_grid_offsets (self\<lparr>img_size := img\<rparr>) (shape x ! 3)
                  else (self\<lparr>img_size := img\<rparr>, None)) \<or>
         (\<exists>m. fst (forward iou mul self x targets img)
           = (fst (if shape x ! 3 \<noteq> grid_size self
                   then compute_grid_offsets (self\<lparr>img_size := img\<rparr>) (shape x ! 3)
                   else (self\<lparr>img_size := img\<rparr>, None)))\<lparr>metrics := m\<rparr>)"
proof -
  let ?s1 = "self\<lparr>img_size := img\<rparr>"
  let ?g = "shape x ! 3"
  let ?u = "if ?g \<noteq> grid_size self then compute_grid_offsets ?s1 ?g else (?s1, None)"
  obtain s2 err where su: "?u = (s2, err)" by (cases ?u)
  have su': "(if ?g \<noteq> grid_size ?s1 then compute_grid_offsets ?s1 ?g else (?s1, None)) = (s2, err)"
    using su by simp
  have s2: "fst ?u = s2" using su by simp
  have "fst (forward iou mul self x targets img) = s2 \<or>
        (\<exists>m. fst (forward iou mul self x targets img) = s2\<lparr>metrics := m\<rparr>)"
  proof (cases err)
    case (Some e)
    with assms su' show ?thesis by (simp add: forward_def Let_def)
  next
    case None
    note err = None
    show ?thesis
    proof (cases "forward_output s2 x (shape x ! 0) ?g")
      case (Inl e)
      with assms su' err show ?thesis by (simp add: forward_def Let_def)
    next
      case (Inr out)
      show ?thesis
      proof (cases targets)
        case None
        with assms su' err Inr show ?thesis by (simp add: forward_def Let_def)
      next
        case (Some tg)
        obtain s3 r where fl: "forward_loss iou mul s2 x (shape x ! 0) ?g tg = (s3, r)"
          by (cases "forward_loss iou mul s2 x (shape x ! 0) ?g tg")
        have "fst (forward iou mul self x targets img) = s3"
          using assms su' err Inr Some fl by (cases r) (simp_all add: forward_def Let_def)
        moreover have "s3 = s2 \<or> (\<exists>m. s3 = s2\<lparr>metrics := m\<rparr>)"
          using forward_loss_state[of iou mul s2 x "shape x ! 0" ?g tg] fl by simp
        ultimately show ?thesis by metis
      qed
    qed
  qed
  then show ?thesis unfolding s2 .
qed

lemma forward_state_noview:
  assumes "length (shape x) \<noteq> 4 \<or>
     numel x \<noteq> shape x ! 0 * num_anchors self * (num_classes self + 7) * (shape x ! 3) * (shape x ! 3)"
  shows "forward iou mul self x targets img
         = (self\<lparr>img_size := img\<rparr>, Inl (if length (shape x) \<noteq> 4 then ValueError else RuntimeError))"
  using assms by (auto simp: forward_def Let_def)

lemma forward_config:
  "num_classes (fst (forward iou mul s x tg img)) = num_classes s"
  "anchors (fst (forward iou mul s x tg img)) = anchors s"
  "num_anchors (fst (forward iou mul s x tg img)) = num_anchors s"
  "scale_x_y (fst (forward iou mul s x tg img)) = scale_x_y s"
  "ignore_thresh (fst (forward iou mul s x tg img)) = ignore_thresh s"
proof -
  let ?v = "length (shape x) = 4 \<and>
     numel x = shape x ! 0 * num_anchors s * (num_classes s + 7) * (shape x ! 3) * (shape x ! 3)"
  have "num_classes (fst (forward iou mul s x tg img)) = num_classes s \<and>
        anchors (fst (forward iou mul s x tg img)) = anchors s \<and>
        num_anchors (fst (forward iou mul s x tg img)) = num_anchors s \<and>
        scale_x_y (fst (forward iou mul s x tg img)) = scale_x_y s \<and>
        ignore_thresh (fst (forward iou mul s x tg img)) = ignore_thresh s"
  proof (cases ?v)
    case True
    then have "fst (forward iou mul s x tg img)
           = fst (if shape x ! 3 \<noteq> grid_size s
                  then compute_grid_offsets (s\<lparr>img_size := img\<rparr>) (shape x ! 3)
                  else (s\<lparr>img_size := img\<rparr>, None)) \<or>
         (\<exists>m. fst (forward iou mul s x tg img)
           = (fst (if shape x ! 3 \<noteq> grid_size s
                   then compute_grid_offsets (s\<lparr>img_size := img\<rparr>) (shape x ! 3)
                   else (s\<lparr>img_size := img\<rparr>, None)))\<lparr>metrics := m\<rparr>)"
      by (intro forward_state_view) simp_all
    then show ?thesis
      by (cases "shape x ! 3 \<noteq> grid_size s") (auto simp: compute_grid_offsets_config)
  next
    case False
    then have "forward iou mul s x tg img
         = (s\<lparr>img_size := img\<rparr>, Inl (if length (shape x) \<noteq> 4 then ValueError else RuntimeError))"
      by (intro forward_state_noview) auto
    then show ?thesis by simp
  qed
  then show "num_classes (fst (forward iou mul s x tg img)) = num_classes s"
    "anchors (fst (forward iou mul s x tg img)) = anchors s"
    "num_anchors (fst (forward iou mul s x tg img)) = num_anchors s"
    "scale_x_y (fst (forward iou mul s x tg img)) = scale_x_y s"
    "ignore_thresh (fst (forward iou mul s x tg img)) = ignore_thresh s"
    by simp_all
qed

text \<open>Claim C8, amended. Over every list of calls of \<open>forward\<close>, whatever their inputs
  and whether they return or raise, \<open>num_classes\<close>, \<open>anchors\<close>, \<open>num_anchors\<close>,
  \<open>scale_x_y\<close> and \<open>ignore_thresh\<close> keep the values the constructor gave them.
  (\<open>stride\<close> does not: \<open>compute_grid_offsets\<close> assigns it.)\<close>

theorem forward_keeps_configuration:
  "num_classes (forward_calls iou mul self calls) = num_classes self \<and>
   anchors (forward_calls iou mul self calls) = anchors self \<and>
   num_anchors (forward_calls iou mul self calls) = num_anchors self \<and>
   scale_x_y (forward_calls iou mul self calls) = scale_x_y self \<and>
   ignore_thresh (forward_calls iou mul self calls) = ignore_thresh self"
  by (induction iou mul self calls rule: forward_calls.induct) (simp_all add: forward_config)

subsection \<open>The grid geometry\<close>

lemma scale_anchors_Nil [simp]: "scale_anchors strd anchs = [] \<longleftrightarrow> anchs = []"
  by (simp add: scale_anchors_def)

lemma length_scale_anchors [simp]: "length (scale_anchors strd anchs) = length anchs"
  by (simp add: scale_anchors_def)

lemma compute_grid_offsets_ok:
  assumes "g \<noteq> 0" "img_size s \<noteq> 0" "anchors s \<noteq> []"
  shows "compute_grid_offsets s g =
           (s\<lparr>grid_size := g, stride := real_of_int (img_size s) / real g,
              grid_x := Some (repeat_rows g (arange g)),
              grid_y := Some (t2 g (repeat_rows g (arange g))),
              scaled_anchors := Some (scale_anchors (real_of_int (img_size s) / real g) (anchors s)),
              anchor_w := Some (map (\<lambda>(w, h, im, re). w)
                                 (scale_anchors (real_of_int (img_size s) / real g) (anchors s))),
              anchor_h := Some (map (\<lambda>(w, h, im, re). h)
                                 (scale_anchors (real_of_int (img_size s) / real g) (anchors s)))\<rparr>,
            None)"
  using assms by (simp add: compute_grid_offsets_def Let_def)

lemma grid_x_entry: "i < g \<Longrightarrow> j < g \<Longrightarrow> repeat_rows g (arange g) ! i ! j = real j"
  by (simp add: repeat_rows_def arange_def)

lemma grid_y_entry: "i < g \<Longrightarrow> j < g \<Longrightarrow> t2 g (repeat_rows g (arange g)) ! i ! j = real i"
  by (simp add: t2_def repeat_rows_def arange_def)

lemma grid_lengths:
  "length (repeat_rows g (arange g)) = g" "length (t2 g (repeat_rows g (arange g))) = g"
  by (simp_all add: t2_def repeat_rows_def)

lemma compute_grid_offsets_geometry:
  assumes "g \<noteq> 0" "img_size s \<noteq> 0"
  shows "grid_size (fst (compute_grid_offsets s g)) = g"
    and "stride (fst (compute_grid_offsets s g)) = real_of_int (img_size s) / real g"
    and "grid_x (fst (compute_grid_offsets s g)) = Some (repeat_rows g (arange g))"
    and "grid_y (fst (compute_grid_offsets s g)) = Some (t2 g (repeat_rows g (arange g)))"
    and "scaled_anchors (fst (compute_grid_offsets s g))
         = Some (scale_anchors (real_of_int (img_size s) / real g) (anchors s))"
  using assms by (simp_all add: compute_grid_offsets_def Let_def)

lemma compute_grid_offsets_anchor_columns:
  assumes "g \<noteq> 0" "img_size s \<noteq> 0" "anchors s \<noteq> []"
  shows "anchor_w (fst (compute_grid_offsets s g))
         = Some (map (\<lambda>(w, h, im, re). w) (scale_anchors (real_of_int (img_size s) / real g) (anchors s)))"
    and "anchor_h (fst (compute_grid_offsets s g))
         = Some (map (\<lambda>(w, h, im, re). h) (scale_anchors (real_of_int (img_size s) / real g) (anchors s)))"
  using assms by (simp_all add: compute_grid_offsets_ok)

text \<open>Claim C6. Let \<open>forward\<close> get past the view of line 134 with a grid size \<open>g\<close>.
  If \<open>g\<close> differs from the cached grid size (0 before the first call) then, for a
  grid and an image of non-zero size, the layer it leaves has \<open>grid_size = g\<close>,
  \<open>stride = img_size / g\<close> by real division, \<open>grid_x[i][j] = j\<close> and \<open>grid_y[i][j] = i\<close>
  for \<open>i, j < g\<close>, and one scaled anchor \<open>(w / stride, h / stride, im, re)\<close> per anchor, with
  \<open>anchor_w\<close> and \<open>anchor_h\<close> its first two columns. If \<open>g\<close> is the cached grid size,
  all seven attributes are left as they were.\<close>

theorem forward_grid_geometry:
  assumes "length (shape x) = 4"
    and "numel x = shape x ! 0 * num_anchors self * (num_classes self + 7) * (shape x ! 3) * (shape x ! 3)"
    and "g = shape x ! 3"
    and "s' = fst (forward iou mul self x targets img)"
  shows "(g \<noteq> grid_size self \<and> g \<noteq> 0 \<and> img \<noteq> 0 \<longrightarrow>
            grid_size s' = g \<and>
            stride s' = real_of_int img / real g \<and>
            (\<exists>gxs gys. grid_x s' = Some gxs \<and> grid_y s' = Some gys \<and>
               (\<forall>i < g. \<forall>j < g. gxs ! i ! j = real j \<and> gys ! i ! j = real i)) \<and>
            (\<exists>sa. scaled_anchors s' = Some sa \<and> length sa = length (anchors self) \<and>
               (\<forall>k < length (anchors self).
                  sa ! k = (fst (anchors self ! k) / stride s', fst (snd (anchors self ! k)) / stride s',
                            fst (snd (snd (anchors self ! k))), snd (snd (snd (anchors self ! k))))) \<and>
               (anchors self = [] \<or>
                  anchor_w s' = Some (map (\<lambda>(w, h, im, re). w) sa) \<and>
                  anchor_h s' = Some (map (\<lambda>(w, h, im, re). h) sa)))) \<and>
         (g = grid_size self \<longrightarrow>
            grid_size s' = grid_size self \<and> stride s' = stride self \<and>
            grid_x s' = grid_x self \<and> grid_y s' = grid_y self \<and>
            scaled_anchors s' = scaled_anchors self \<and>
            anchor_w s' = anchor_w self \<and> anchor_h s' = anchor_h self)"
proof (intro conjI impI)
  let ?s1 = "self\<lparr>img_size := img\<rparr>"
  let ?u = "fst (if shape x ! 3 \<noteq> grid_size self then compute_grid_offsets ?s1 (shape x ! 3) else (?s1, None))"
  have st: "s' = ?u \<or> (\<exists>m. s' = ?u\<lparr>metrics := m\<rparr>)"
    unfolding assms(4) using assms(1,2) by (rule forward_state_view)
  {
    assume "g = grid_size self"
    then have u: "?u = ?s1" using assms(3) by simp
    from st show "grid_size s' = grid_size self" "stride s' = stride self"
      "grid_x s' = grid_x self" "grid_y s' = grid_y self" "scaled_anchors s' = scaled_anchors self"
      "anchor_w s' = anchor_w self" "anchor_h s' = anchor_h self"
      unfolding u by auto
  }
  {
    assume a: "g \<noteq> grid_size self \<and> g \<noteq> 0 \<and> img \<noteq> 0"
    then have u: "?u = fst (compute_grid_offsets ?s1 g)" using assms(3) by simp
    have g0: "g \<noteq> 0" and i0: "img_size ?s1 \<noteq> 0" using a by simp_all
    note geo = compute_grid_offsets_geometry[OF g0 i0]
    from st show gs: "grid_size s' = g" unfolding u by (auto simp: geo)
    from st show sd: "stride s' = real_of_int img / real g" unfolding u by (auto simp: geo)
    from st have gx: "grid_x s' = Some (repeat_rows g (arange g))"
      and gy: "grid_y s' = Some (t2 g (repeat_rows g (arange g)))"
      unfolding u by (auto simp: geo)
    show "\<exists>gxs gys. grid_x s' = Some gxs \<and> grid_y s' = Some gys \<and>
               (\<forall>i < g. \<forall>j < g. gxs ! i ! j = real j \<and> gys ! i ! j = real i)"
      using gx gy by (simp add: grid_x_entry grid_y_entry)
    from st have sa: "scaled_anchors s' = Some (scale_anchors (real_of_int img / real g) (anchors self))"
      unfolding u by (auto simp: geo)
    have cols: "anchors self = [] \<or>
                  anchor_w s' = Some (map (\<lambda>(w, h, im, re). w)
                                        (scale_anchors (real_of_int img / real g) (anchors self))) \<and>
                  anchor_h s' = Some (map (\<lambda>(w, h, im, re). h)
                                        (scale_anchors (real_of_int img / real g) (anchors self)))"
    proof (cases "anchors self = []")
      case True then show ?thesis by simp
    next
      case False
      then have "anchors ?s1 \<noteq> []" by simp
      note compute_grid_offsets_anchor_columns[OF g0 i0 this]
      with st show ?thesis unfolding u by auto
    qed
    show "\<exists>sa. scaled_anchors s' = Some sa \<and> length sa = length (anchors self) \<and>
               (\<forall>k < length (anchors self).
                  sa ! k = (fst (anchors self ! k) / stride s', fst (snd (anchors self ! k)) / stride s',
                            fst (snd (snd (anchors self ! k))), snd (snd (snd (anchors self ! k))))) \<and>
               (anchors self = [] \<or>
                  anchor_w s' = Some (map (\<lambda>(w, h, im, re). w) sa) \<and>
                  anchor_h s' = Some (map (\<lambda>(w, h, im, re). h) sa))"
      using cols unfolding sa sd by (simp add: scale_anchors_def split_beta)
  }
qed

subsection \<open>The invariant\<close>

lemma layer_inv_init: "layer_inv (YoloLayer_init n_classes anchs strd sxy thresh)"
  by (simp add: layer_inv_def YoloLayer_init_def)

lemma layer_inv_img_size: "layer_inv (s\<lparr>img_size := img\<rparr>) = layer_inv s"
  by (simp add: layer_inv_def cong: option.case_cong)

lemma layer_inv_metrics: "layer_inv (s\<lparr>metrics := m\<rparr>) = layer_inv s"
  by (simp add: layer_inv_def cong: option.case_cong)

lemma layer_inv_compute_grid_offsets:
  assumes "layer_inv s"
  shows "layer_inv (fst (compute_grid_offsets s g))"
proof (cases "g = 0")
  case True
  with assms show ?thesis
    by (simp add: compute_grid_offsets_def Let_def layer_inv_def split: option.splits)
next
  case g: False
  show ?thesis
  proof (cases "anchors s \<noteq> [] \<and> real_of_int (img_size s) / real g = 0")
    case True
    with assms g show ?thesis
      by (simp add: compute_grid_offsets_def Let_def layer_inv_def grid_lengths split: option.splits)
  next
    case z: False
    show ?thesis
    proof (cases "anchors s = []")
      case True
      with assms g z show ?thesis
        by (auto simp: compute_grid_offsets_def Let_def layer_inv_def grid_lengths split: option.splits)
    next
      case False
      with assms g z show ?thesis
        by (simp add: compute_grid_offsets_def Let_def layer_inv_def grid_lengths split: option.splits)
    qed
  qed
qed

lemma layer_inv_forward:
  assumes "layer_inv s"
  shows "layer_inv (fst (forward iou mul s x tg img))"
proof (cases "length (shape x) = 4 \<and>
     numel x = shape x ! 0 * num_anchors s * (num_classes s + 7) * (shape x ! 3) * (shape x ! 3)")
  case True
  let ?u = "fst (if shape x ! 3 \<noteq> grid_size s
                  then compute_grid_offsets (s\<lparr>img_size := img\<rparr>) (shape x ! 3)
                  else (s\<lparr>img_size := img\<rparr>, None))"
  have "layer_inv ?u"
    using assms by (simp add: layer_inv_compute_grid_offsets layer_inv_img_size)
  moreover have "fst (forward iou mul s x tg img) = ?u \<or> (\<exists>m. fst (forward iou mul s x tg img) = ?u\<lparr>metrics := m\<rparr>)"
    using True by (intro forward_state_view) simp_all
  ultimately show ?thesis by (auto simp: layer_inv_metrics)
next
  case False
  then have "forward iou mul s x tg img
         = (s\<lparr>img_size := img\<rparr>, Inl (if length (shape x) \<noteq> 4 then ValueError else RuntimeError))"
    by (intro forward_state_noview) auto
  with assms show ?thesis by (simp add: layer_inv_img_size)
qed

lemma layer_inv_forward_calls:
  "layer_inv s \<Longrightarrow> layer_inv (forward_calls iou mul s calls)"
  by (induction iou mul s calls rule: forward_calls.induct) (simp_all add: layer_inv_forward)

subsection \<open>Decoding\<close>

lemma flat_less:
  assumes "a < nA" "i < g" "j < (g::nat)"
  shows "(a * g + i) * g + j < nA * g * g"
proof -
  have "(a * g + i) * g + j < (a * g + i) * g + g" using assms by simp
  also have "\<dots> = (a * g + i + 1) * g" by (simp add: algebra_simps)
  also have "\<dots> \<le> (a * g + g) * g" using assms by (intro mult_le_mono1) simp
  also have "\<dots> = (a + 1) * g * g" by (simp add: algebra_simps)
  also have "\<dots> \<le> nA * g * g" using assms by (intro mult_le_mono1) simp
  finally show ?thesis .
qed

lemma cell_of_flat:
  assumes "i < g" "j < g"
  shows "cell_of g ((a * g + i) * g + j) = (a, i, j)"
proof -
  have g: "0 < g" using assms by simp
  have d1: "((a * g + i) * g + j) div g = a * g + i" using assms by simp
  have m1: "((a * g + i) * g + j) mod g = j" using assms by simp
  have "((a * g + i) * g + j) div (g * g) = (((a * g + i) * g + j) div g) div g"
    by (simp add: div_mult2_eq)
  also have "\<dots> = a" unfolding d1 using assms by simp
  finally have d2: "((a * g + i) * g + j) div (g * g) = a" .
  have m2: "(a * g + i) mod g = i" using assms by simp
  show ?thesis using assms by (simp add: cell_of_def d1 d2)
qed

lemma output_of_length:
  "length (output_of s P boxes N nA g nC) = N"
  "n < N \<Longrightarrow> length (output_of s P boxes N nA g nC ! n) = nA * g * g"
  by (simp_all add: output_of_def)

lemma output_of_nth:
  assumes "n < N" "a < nA" "i < g" "j < g"
  shows "output_of s P boxes N nA g nC ! n ! ((a * g + i) * g + j)
         = map (\<lambda>v. v * stride s) (take 4 (boxes n a i j)) @ drop 4 (boxes n a i j)
           @ [sigmoid (P n a i j 6)] @ map (\<lambda>c. sigmoid (P n a i j (7 + c))) [0..<nC]"
  using assms flat_less[OF assms(2,3,4)]
  by (simp add: output_of_def cell_of_flat)

lemma pred_boxes_inv:
  assumes inv: "layer_inv s" and nA: "nA = num_anchors s"
    and g: "g = grid_size s"
    and pb: "pred_boxes s P nA g = Inr boxes"
  shows "\<exists>gxs gys sa. grid_x s = Some gxs \<and> grid_y s = Some gys \<and> scaled_anchors s = Some sa \<and>
           (\<forall>n. \<forall>a < nA. \<forall>i < g. \<forall>j < g.
              boxes n a i j =
                [center s (P n a i j 0) + gxs ! i ! j, center s (P n a i j 1) + gys ! i ! j,
                 exp (P n a i j 2) * fst (sa ! a), exp (P n a i j 3) * fst (snd (sa ! a)),
                 P n a i j 4, P n a i j 5])"
proof -
  from pb obtain gxs gys aws ahs gx gy aw ah where
    f: "grid_x s = Some gxs" "grid_y s = Some gys" "anchor_w s = Some aws" "anchor_h s = Some ahs"
    and e: "expand_grid g gxs = Inr gx" "expand_grid g gys = Inr gy"
       "expand_anchor nA aws = Inr aw" "expand_anchor nA ahs = Inr ah"
    and b: "boxes = (\<lambda>n a i j.
          [ center s (P n a i j 0) + gx i j, center s (P n a i j 1) + gy i j,
            exp (P n a i j 2) * aw a, exp (P n a i j 3) * ah a, P n a i j 4, P n a i j 5 ])"
    by (auto simp: pred_boxes_def split: option.splits sum.splits)
  from inv f obtain sa where sa: "scaled_anchors s = Some sa" "length sa = nA"
    "aws = map (\<lambda>(w, h, im, re). w) sa" "ahs = map (\<lambda>(w, h, im, re). h) sa"
    by (auto simp: layer_inv_def nA split: option.splits)
  have gx: "\<And>i j. i < g \<Longrightarrow> gx i j = gxs ! i ! j"
    using inv f(1) e(1) g by (auto simp: layer_inv_def expand_grid_def split: if_splits)
  have gy: "\<And>i j. i < g \<Longrightarrow> gy i j = gys ! i ! j"
    using inv f(2) e(2) g by (auto simp: layer_inv_def expand_grid_def split: if_splits)
  have aw: "\<And>a. a < nA \<Longrightarrow> aw a = fst (sa ! a)"
    using e(3) sa by (auto simp: expand_anchor_def split_beta split: if_splits)
  have ah: "\<And>a. a < nA \<Longrightarrow> ah a = fst (snd (sa ! a))"
    using e(4) sa by (auto simp: expand_anchor_def split_beta split: if_splits)
  show ?thesis
    using f sa(1) by (simp add: b gx gy aw ah)
qed

lemma forward_InrD:
  assumes "forward iou mul self x targets img = (s', Inr (out, l))"
  shows "length (shape x) = 4 \<and>
         numel x = shape x ! 0 * num_anchors self * (num_classes self + 7) * (shape x ! 3) * (shape x ! 3) \<and>
         (\<exists>s2. (if shape x ! 3 \<noteq> grid_size self
                 then compute_grid_offsets (self\<lparr>img_size := img\<rparr>) (shape x ! 3)
                 else (self\<lparr>img_size := img\<rparr>, None)) = (s2, None) \<and>
               forward_output s2 x (shape x ! 0) (shape x ! 3) = Inr out \<and>
               (case targets of None \<Rightarrow> s' = s2 \<and> l = Num 0
                | Some tg \<Rightarrow> forward_loss iou mul s2 x (shape x ! 0) (shape x ! 3) tg = (s', Inr l)))"
proof -
  let ?s1 = "self\<lparr>img_size := img\<rparr>"
  let ?g = "shape x ! 3"
  let ?u = "if ?g \<noteq> grid_size self then compute_grid_offsets ?s1 ?g else (?s1, None)"
  have v: "length (shape x) = 4 \<and>
         numel x = shape x ! 0 * num_anchors self * (num_classes self + 7) * ?g * ?g"
  proof (rule ccontr)
    assume "\<not> ?thesis"
    then have "forward iou mul self x targets img
         = (?s1, Inl (if length (shape x) \<noteq> 4 then ValueError else RuntimeError))"
      by (intro forward_state_noview) auto
    with assms show False by simp
  qed
  obtain s2 err where su: "?u = (s2, err)" by (cases ?u)
  have su': "(if ?g \<noteq> grid_size ?s1 then compute_grid_offsets ?s1 ?g else (?s1, None)) = (s2, err)"
    using su by simp
  have err: "err = None"
  proof (cases err)
    case (Some e)
    with v su' assms show ?thesis by (simp add: forward_def Let_def)
  qed simp
  have out: "forward_output s2 x (shape x ! 0) ?g = Inr out \<and>
             (case targets of None \<Rightarrow> s' = s2 \<and> l = Num 0
                | Some tg \<Rightarrow> forward_loss iou mul s2 x (shape x ! 0) ?g tg = (s', Inr l))"
  proof (cases "forward_output s2 x (shape x ! 0) ?g")
    case (Inl e)
    with v su' err assms show ?thesis by (simp add: forward_def Let_def)
  next
    case (Inr out')
    show ?thesis
    proof (cases targets)
      case None
      with v su' err Inr assms show ?thesis by (simp add: forward_def Let_def)
    next
      case (Some tg)
      obtain s3 r where fl: "forward_loss iou mul s2 x (shape x ! 0) ?g tg = (s3, r)"
        by (cases "forward_loss iou mul s2 x (shape x ! 0) ?g tg")
      show ?thesis
        using v su' err Inr Some fl assms by (cases r) (simp_all add: forward_def Let_def)
    qed
  qed
  show ?thesis using v su err out by simp
qed

lemma grid_update_size:
  assumes "(if g \<noteq> grid_size self then compute_grid_offsets (self\<lparr>img_size := img\<rparr>) g
            else (self\<lparr>img_size := img\<rparr>, None)) = (s2, e)"
  shows "grid_size s2 = g"
  using assms by (auto simp: compute_grid_offsets_def Let_def split: if_splits)

lemma forward_loss_geometry:
  assumes "forward_loss iou mul s2 x n g tg = (s', r)"
  shows "grid_x s' = grid_x s2" "grid_y s' = grid_y s2" "scaled_anchors s' = scaled_anchors s2"
    "stride s' = stride s2"
  using assms forward_loss_state[of iou mul s2 x n g tg] by auto

lemma forward_output_entries:
  assumes "layer_inv self"
    and "forward iou mul self x targets img = (s', Inr (out, l))"
    and "N = shape x ! 0" and "g = shape x ! 3"
    and "nA = num_anchors self" and "nC = num_classes self"
    and "P = prediction x nA nC g"
  shows "length out = N \<and> (\<forall>n < N. length (out ! n) = nA * g * g) \<and>
         (\<exists>gxs gys sa. grid_x s' = Some gxs \<and> grid_y s' = Some gys \<and> scaled_anchors s' = Some sa \<and>
            (\<forall>n < N. \<forall>a < nA. \<forall>i < g. \<forall>j < g.
               out ! n ! ((a * g + i) * g + j) =
                 [ (sigmoid (P n a i j 0) * scale_x_y self - 0.5 * (scale_x_y self - 1) + gxs ! i ! j)
                     * stride s',
                   (sigmoid (P n a i j 1) * scale_x_y self - 0.5 * (scale_x_y self - 1) + gys ! i ! j)
                     * stride s',
                   exp (P n a i j 2) * fst (sa ! a) * stride s',
                   exp (P n a i j 3) * fst (snd (sa ! a)) * stride s',
                   P n a i j 4, P n a i j 5, sigmoid (P n a i j 6) ]
                 @ map (\<lambda>c. sigmoid (P n a i j (7 + c))) [0..<nC]))"
proof -
  let ?s1 = "self\<lparr>img_size := img\<rparr>"
  from forward_InrD[OF assms(2)] obtain s2 where
    u: "(if g \<noteq> grid_size self then compute_grid_offsets ?s1 g else (?s1, None)) = (s2, None)"
    and fo: "forward_output s2 x N g = Inr out"
    and t: "case targets of None \<Rightarrow> s' = s2 \<and> l = Num 0
            | Some tg \<Rightarrow> forward_loss iou mul s2 x N g tg = (s', Inr l)"
    unfolding assms(3,4) by blast
  have s2_fst: "s2 = fst (if g \<noteq> grid_size self then compute_grid_offsets ?s1 g else (?s1, None))"
    using u by simp
  have inv2: "layer_inv s2"
    unfolding s2_fst using assms(1) by (simp add: layer_inv_compute_grid_offsets layer_inv_img_size)
  have cfg: "num_anchors s2 = nA" "num_classes s2 = nC" "scale_x_y s2 = scale_x_y self"
    unfolding s2_fst assms(5,6) by (simp_all add: compute_grid_offsets_config)
  have gs: "grid_size s2 = g" using u by (rule grid_update_size)
  have geo: "grid_x s' = grid_x s2" "grid_y s' = grid_y s2" "scaled_anchors s' = scaled_anchors s2"
    "stride s' = stride s2"
    using t forward_loss_geometry by (auto split: option.splits)
  from fo obtain boxes where pb: "pred_boxes s2 P nA g = Inr boxes"
    and out: "out = output_of s2 P boxes N nA g nC"
    by (auto simp: forward_output_def Let_def cfg assms(7) split: sum.splits if_splits)
  from pred_boxes_inv[OF inv2 cfg(1)[symmetric] gs[symmetric] pb]
  obtain gxs gys sa where
    c: "grid_x s2 = Some gxs" "grid_y s2 = Some gys" "scaled_anchors s2 = Some sa"
    and bx: "\<forall>n. \<forall>a < nA. \<forall>i < g. \<forall>j < g.
              boxes n a i j =
                [center s2 (P n a i j 0) + gxs ! i ! j, center s2 (P n a i j 1) + gys ! i ! j,
                 exp (P n a i j 2) * fst (sa ! a), exp (P n a i j 3) * fst (snd (sa ! a)),
                 P n a i j 4, P n a i j 5]"
    by blast
  have rows: "\<forall>n < N. \<forall>a < nA. \<forall>i < g. \<forall>j < g.
               out ! n ! ((a * g + i) * g + j) =
                 [ (sigmoid (P n a i j 0) * scale_x_y self - 0.5 * (scale_x_y self - 1) + gxs ! i ! j)
                     * stride s',
                   (sigmoid (P n a i j 1) * scale_x_y self - 0.5 * (scale_x_y self - 1) + gys ! i ! j)
                     * stride s',
                   exp (P n a i j 2) * fst (sa ! a) * stride s',
                   exp (P n a i j 3) * fst (snd (sa ! a)) * stride s',
                   P n a i j 4, P n a i j 5, sigmoid (P n a i j 6) ]
                 @ map (\<lambda>c. sigmoid (P n a i j (7 + c))) [0..<nC]"
  proof (intro allI impI)
    fix n a i j assume h: "n < N" "a < nA" "i < g" "j < g"
    from bx h have b: "boxes n a i j =
                [center s2 (P n a i j 0) + gxs ! i ! j, center s2 (P n a i j 1) + gys ! i ! j,
                 exp (P n a i j 2) * fst (sa ! a), exp (P n a i j 3) * fst (snd (sa ! a)),
                 P n a i j 4, P n a i j 5]" by blast
    show "out ! n ! ((a * g + i) * g + j) =
                 [ (sigmoid (P n a i j 0) * scale_x_y self - 0.5 * (scale_x_y self - 1) + gxs ! i ! j)
                     * stride s',
                   (sigmoid (P n a i j 1) * scale_x_y self - 0.5 * (scale_x_y self - 1) + gys ! i ! j)
                     * stride s',
                   exp (P n a i j 2) * fst (sa ! a) * stride s',
                   exp (P n a i j 3) * fst (snd (sa ! a)) * stride s',
                   P n a i j 4, P n a i j 5, sigmoid (P n a i j 6) ]
                 @ map (\<lambda>c. sigmoid (P n a i j (7 + c))) [0..<nC]"
      unfolding out output_of_nth[OF h] b
      by (simp add: center_def cfg geo)
  qed
  have "length out = N \<and> (\<forall>n < N. length (out ! n) = nA * g * g)"
    unfolding out by (simp add: output_of_length)
  moreover have "grid_x s' = Some gxs \<and> grid_y s' = Some gys \<and> scaled_anchors s' = Some sa"
    using c geo by simp
  ultimately show ?thesis using rows by auto
qed

text \<open>Claim C4. When \<open>forward\<close> returns an output, with or without targets, the
  output has one list per sample, of \<open>nA * g * g\<close> boxes, and the box of anchor \<open>a\<close> and
  cell \<open>(i, j)\<close> is at index \<open>(a * g + i) * g + j\<close>: its centre is
  \<open>sigmoid(t) * scale_x_y - 0.5 * (scale_x_y - 1)\<close> plus the grid offset, its size is the
  exponential of the raw size times the scaled anchor's, both times the stride; then
  come im, re, the sigmoid of the confidence and the sigmoids of the \<open>nC\<close> class scores,
  \<open>7 + nC\<close> entries in all. With \<open>scale_x_y = 1\<close> the centre transform is the sigmoid.\<close>

theorem forward_decodes_boxes:
  assumes "layer_inv self"
    and "forward iou mul self x targets img = (s', Inr (out, l))"
    and "N = shape x ! 0" and "g = shape x ! 3"
    and "nA = num_anchors self" and "nC = num_classes self"
    and "P = prediction x nA nC g"
  shows "length out = N \<and> (\<forall>n < N. length (out ! n) = nA * g * g) \<and>
         (\<exists>gxs gys sa. grid_x s' = Some gxs \<and> grid_y s' = Some gys \<and> scaled_anchors s' = Some sa \<and>
            (\<forall>n < N. \<forall>a < nA. \<forall>i < g. \<forall>j < g.
               out ! n ! ((a * g + i) * g + j) =
                 [ (sigmoid (P n a i j 0) * scale_x_y self - 0.5 * (scale_x_y self - 1) + gxs ! i ! j)
                     * stride s',
                   (sigmoid (P n a i j 1) * scale_x_y self - 0.5 * (scale_x_y self - 1) + gys ! i ! j)
                     * stride s',
                   exp (P n a i j 2) * fst (sa ! a) * stride s',
                   exp (P n a i j 3) * fst (snd (sa ! a)) * stride s',
                   P n a i j 4, P n a i j 5, sigmoid (P n a i j 6) ]
                 @ map (\<lambda>c. sigmoid (P n a i j (7 + c))) [0..<nC])) \<and>
         (scale_x_y self = 1 \<longrightarrow>
            (\<forall>v. sigmoid v * scale_x_y self - 0.5 * (scale_x_y self - 1) = sigmoid v))"
  using forward_output_entries[OF assms] by simp

subsection \<open>Inference\<close>

lemma pred_boxes_ok:
  assumes inv: "layer_inv s" and g: "grid_size s = g" "g \<noteq> 0"
    and present: "grid_x s \<noteq> None" "grid_y s \<noteq> None" "anchor_w s \<noteq> None" "anchor_h s \<noteq> None"
  shows "\<exists>boxes. pred_boxes s P (num_anchors s) g = Inr boxes"
proof -
  from present obtain gxs gys aws ahs where
    f: "grid_x s = Some gxs" "grid_y s = Some gys" "anchor_w s = Some aws" "anchor_h s = Some ahs"
    by auto
  from inv f g have l: "length gxs = g" "length gys = g"
    "length aws = num_anchors s" "length ahs = num_anchors s"
    by (auto simp: layer_inv_def split: option.splits)
  show ?thesis
    by (simp add: pred_boxes_def f expand_grid_def expand_anchor_def l)
qed

lemma grid_update_ok:
  assumes "g \<noteq> 0"
    and "g \<noteq> grid_size self \<and> img \<noteq> 0 \<and> anchors self \<noteq> [] \<or>
         g = grid_size self \<and> grid_x self \<noteq> None \<and> grid_y self \<noteq> None \<and>
         anchor_w self \<noteq> None \<and> anchor_h self \<noteq> None"
  shows "\<exists>s2. (if g \<noteq> grid_size self then compute_grid_offsets (self\<lparr>img_size := img\<rparr>) g
               else (self\<lparr>img_size := img\<rparr>, None)) = (s2, None) \<and>
              grid_x s2 \<noteq> None \<and> grid_y s2 \<noteq> None \<and> anchor_w s2 \<noteq> None \<and> anchor_h s2 \<noteq> None"
proof (cases "g = grid_size self")
  case True
  with assms show ?thesis by simp
next
  case False
  with assms have "img_size (self\<lparr>img_size := img\<rparr>) \<noteq> 0" "anchors (self\<lparr>img_size := img\<rparr>) \<noteq> []"
    by simp_all
  from compute_grid_offsets_ok[OF assms(1) this] False show ?thesis by simp
qed

lemma forward_infer_ok:
  assumes "layer_inv self"
    and "length (shape x) = 4"
    and "numel x = shape x ! 0 * num_anchors self * (num_classes self + 7) * (shape x ! 3) * (shape x ! 3)"
    and "N = shape x ! 0" and "g = shape x ! 3"
    and "N \<noteq> 0" and "num_classes self \<noteq> 0" and "g \<noteq> 0"
    and "g \<noteq> grid_size self \<and> img \<noteq> 0 \<and> anchors self \<noteq> [] \<or>
         g = grid_size self \<and> grid_x self \<noteq> None \<and> grid_y self \<noteq> None \<and>
         anchor_w self \<noteq> None \<and> anchor_h self \<noteq> None"
  shows "\<exists>s' out. forward iou mul self x None img = (s', Inr (out, Num 0)) \<and>
           forward_output s' x N g = Inr out \<and>
           (\<forall>tg s'' out' l. forward iou mul self x (Some tg) img = (s'', Inr (out', l)) \<longrightarrow> out' = out)"
proof -
  let ?s1 = "self\<lparr>img_size := img\<rparr>"
  from grid_update_ok[OF assms(8,9)] obtain s2 where
    u: "(if g \<noteq> grid_size self then compute_grid_offsets ?s1 g else (?s1, None)) = (s2, None)"
    and present: "grid_x s2 \<noteq> None" "grid_y s2 \<noteq> None" "anchor_w s2 \<noteq> None" "anchor_h s2 \<noteq> None"
    by blast
  have u': "(if shape x ! 3 \<noteq> grid_size ?s1 then compute_grid_offsets ?s1 (shape x ! 3) else (?s1, None))
            = (s2, None)"
    using u unfolding assms(5) by simp
  have s2_fst: "s2 = fst (if g \<noteq> grid_size self then compute_grid_offsets ?s1 g else (?s1, None))"
    using u by simp
  have inv2: "layer_inv s2"
    unfolding s2_fst using assms(1) by (simp add: layer_inv_compute_grid_offsets layer_inv_img_size)
  have cfg: "num_anchors s2 = num_anchors self" "num_classes s2 = num_classes self"
    unfolding s2_fst by (simp_all add: compute_grid_offsets_config)
  have gs: "grid_size s2 = g" using u by (rule grid_update_size)
  from pred_boxes_ok[OF inv2 gs assms(8) present]
  obtain boxes where pb: "pred_boxes s2 (prediction x (num_anchors s2) (num_classes s2) g) (num_anchors s2) g = Inr boxes"
    by blast
  define out where "out = output_of s2 (prediction x (num_anchors s2) (num_classes s2) g) boxes N
                            (num_anchors s2) g (num_classes s2)"
  have fo: "forward_output s2 x N g = Inr out"
    using pb assms(6,7) by (simp add: forward_output_def Let_def out_def cfg)
  have fo': "forward_output s2 x (shape x ! 0) (shape x ! 3) = Inr out"
    using fo assms(4,5) by simp
  have fw: "forward iou mul self x None img = (s2, Inr (out, Num 0))"
    using assms(2,3) u' fo' by (simp add: forward_def Let_def)
  have same: "\<forall>tg s'' out' l. forward iou mul self x (Some tg) img = (s'', Inr (out', l)) \<longrightarrow> out' = out"
  proof (intro allI impI)
    fix tg s'' out' l
    assume "forward iou mul self x (Some tg) img = (s'', Inr (out', l))"
    from forward_InrD[OF this] u fo show "out' = out"
      unfolding assms(4,5) by auto
  qed
  show ?thesis using fw fo same by blast
qed

text \<open>Claim C9. Without targets, on an input of the expected shape (four
  dimensions, as many entries as the view of line 134 needs, at least one sample, one
  class and one cell) and a layer that either recomputes its grid or has it cached,
  \<open>forward\<close> returns, and what it returns is the loss 0 and the decoded boxes: one list
  per sample, of \<open>nA * g * g\<close> boxes of \<open>7 + nC\<close> entries, the box of anchor \<open>a\<close> and cell
  \<open>(i, j)\<close> at index \<open>(a * g + i) * g + j\<close> with the centre, the size, im, re, and the
  sigmoids of the confidence and of the class scores, as lines 139-167 compute them on
  the geometry the call leaves. It is the list the call returns with targets too.\<close>

theorem forward_without_targets:
  assumes "layer_inv self"
    and "length (shape x) = 4"
    and "numel x = shape x ! 0 * num_anchors self * (num_classes self + 7) * (shape x ! 3) * (shape x ! 3)"
    and "N = shape x ! 0" and "g = shape x ! 3"
    and "N \<noteq> 0" and "num_classes self \<noteq> 0" and "g \<noteq> 0"
    and "g \<noteq> grid_size self \<and> img \<noteq> 0 \<and> anchors self \<noteq> [] \<or>
         g = grid_size self \<and> grid_x self \<noteq> None \<and> grid_y self \<noteq> None \<and>
         anchor_w self \<noteq> None \<and> anchor_h self \<noteq> None"
    and "nA = num_anchors self" and "nC = num_classes self"
    and "P = prediction x nA nC g"
  shows "\<exists>s' out gxs gys sa.
           forward iou mul self x None img = (s', Inr (out, Num 0)) \<and>
           length out = N \<and> (\<forall>n < N. length (out ! n) = nA * g * g) \<and>
           grid_x s' = Some gxs \<and> grid_y s' = Some gys \<and> scaled_anchors s' = Some sa \<and>
           (\<forall>n < N. \<forall>a < nA. \<forall>i < g. \<forall>j < g.
              length (out ! n ! ((a * g + i) * g + j)) = 7 + nC \<and>
              out ! n ! ((a * g + i) * g + j) =
                [ (sigmoid (P n a i j 0) * scale_x_y self - 0.5 * (scale_x_y self - 1) + gxs ! i ! j)
                    * stride s',
                  (sigmoid (P n a i j 1) * scale_x_y self - 0.5 * (scale_x_y self - 1) + gys ! i ! j)
                    * stride s',
                  exp (P n a i j 2) * fst (sa ! a) * stride s',
                  exp (P n a i j 3) * fst (snd (sa ! a)) * stride s',
                  P n a i j 4, P n a i j 5, sigmoid (P n a i j 6) ]
                @ map (\<lambda>c. sigmoid (P n a i j (7 + c))) [0..<nC]) \<and>
           forward_output s' x N g = Inr out \<and>
           (\<forall>tg s'' out' l. forward iou mul self x (Some tg) img = (s'', Inr (out', l)) \<longrightarrow> out' = out)"
proof -
  from forward_infer_ok[OF assms(1-9), where iou = iou and mul = mul]
  obtain s' out where fw: "forward iou mul self x None img = (s', Inr (out, Num 0))"
    and fo: "forward_output s' x N g = Inr out"
    and same: "\<forall>tg s'' out' l. forward iou mul self x (Some tg) img = (s'', Inr (out', l)) \<longrightarrow> out' = out"
    by blast
  from forward_output_entries[OF assms(1) fw assms(4,5,10,11,12)]
  obtain gxs gys sa where len: "length out = N" "\<forall>n < N. length (out ! n) = nA * g * g"
    and c: "grid_x s' = Some gxs" "grid_y s' = Some gys" "scaled_anchors s' = Some sa"
    and rows: "\<forall>n < N. \<forall>a < nA. \<forall>i < g. \<forall>j < g.
              out ! n ! ((a * g + i) * g + j) =
                [ (sigmoid (P n a i j 0) * scale_x_y self - 0.5 * (scale_x_y self - 1) + gxs ! i ! j)
                    * stride s',
                  (sigmoid (P n a i j 1) * scale_x_y self - 0.5 * (scale_x_y self - 1) + gys ! i ! j)
                    * stride s',
                  exp (P n a i j 2) * fst (sa ! a) * stride s',
                  exp (P n a i j 3) * fst (snd (sa ! a)) * stride s',
                  P n a i j 4, P n a i j 5, sigmoid (P n a i j 6) ]
                @ map (\<lambda>c. sigmoid (P n a i j (7 + c))) [0..<nC]"
    by blast
  have rows': "\<forall>n < N. \<forall>a < nA. \<forall>i < g. \<forall>j < g.
              length (out ! n ! ((a * g + i) * g + j)) = 7 + nC \<and>
              out ! n ! ((a * g + i) * g + j) =
                [ (sigmoid (P n a i j 0) * scale_x_y self - 0.5 * (scale_x_y self - 1) + gxs ! i ! j)
                    * stride s',
                  (sigmoid (P n a i j 1) * scale_x_y self - 0.5 * (scale_x_y self - 1) + gys ! i ! j)
                    * stride s',
                  exp (P n a i j 2) * fst (sa ! a) * stride s',
                  exp (P n a i j 3) * fst (snd (sa ! a)) * stride s',
                  P n a i j 4, P n a i j 5, sigmoid (P n a i j 6) ]
                @ map (\<lambda>c. sigmoid (P n a i j (7 + c))) [0..<nC]"
    using rows by simp
  show ?thesis
    using fw len c rows' fo same by blast
qed

subsection \<open>Training without ground-truth boxes\<close>

lemma build_targets_no_boxes:
  "build_targets iou mul s sz [] anchs =
     Inr \<lparr> obj_mask = (\<lambda>_. False), noobj_mask = (\<lambda>_. True),
           tx = (\<lambda>_. 0), ty = (\<lambda>_. 0), tw = (\<lambda>_. 0), th = (\<lambda>_. 0), tim = (\<lambda>_. 0), tre = (\<lambda>_. 0),
           tcls = (\<lambda>_. 0), tconf = (\<lambda>_. 0) \<rparr>"
  by (cases sz) (simp add: build_targets_def Let_def)

lemma fl_add_NaN [simp]: "fl_add NaN v = NaN" "fl_add v NaN = NaN"
  by (cases v; simp)+

lemma compute_losses_empty_obj:
  assumes "\<forall>p. \<not> obj_mask t p"
  shows "loss_x (compute_losses s P N nA g nC t) = NaN"
    and "loss_y (compute_losses s P N nA g nC t) = NaN"
    and "loss_w (compute_losses s P N nA g nC t) = NaN"
    and "loss_h (compute_losses s P N nA g nC t) = NaN"
    and "loss_im (compute_losses s P N nA g nC t) = NaN"
    and "loss_re (compute_losses s P N nA g nC t) = NaN"
    and "loss_conf (compute_losses s P N nA g nC t) = NaN"
    and "loss_cls (compute_losses s P N nA g nC t) = NaN"
    and "total_loss (compute_losses s P N nA g nC t) = NaN"
proof -
  have m: "\<And>sl f. masked (obj_mask t) sl f = []"
    using assms by (auto simp: masked_def filter_empty_conv)
  show "loss_x (compute_losses s P N nA g nC t) = NaN"
    "loss_y (compute_losses s P N nA g nC t) = NaN"
    "loss_w (compute_losses s P N nA g nC t) = NaN"
    "loss_h (compute_losses s P N nA g nC t) = NaN"
    "loss_im (compute_losses s P N nA g nC t) = NaN"
    "loss_re (compute_losses s P N nA g nC t) = NaN"
    "loss_conf (compute_losses s P N nA g nC t) = NaN"
    "loss_cls (compute_losses s P N nA g nC t) = NaN"
    "total_loss (compute_losses s P N nA g nC t) = NaN"
    by (simp_all add: compute_losses_def Let_def m mse_loss_def bce_loss_def)
qed

text \<open>Claim C1. The code does not do what the claim says. With a ground-truth
  tensor of zero rows \<open>build_targets\<close> returns the all-false \<open>obj_mask\<close> (line 81 makes
  sure of it), every selection by \<open>obj_mask\<close> is empty, and the mean reductions of
  lines 178-188 over it are NaN: whenever \<open>forward\<close> returns on such targets the total
  loss is NaN, and so is every entry of the metrics.\<close>

theorem forward_no_boxes_loss_nan:
  assumes "forward iou mul self x (Some []) img = (s', Inr (out, l))"
  shows "l = NaN \<and>
         metrics s' = [(''loss'', NaN), (''x'', NaN), (''y'', NaN), (''w'', NaN), (''h'', NaN),
                       (''im'', NaN), (''re'', NaN), (''conf'', NaN), (''cls'', NaN)]"
proof -
  from forward_InrD[OF assms] obtain s2 where
    fl: "forward_loss iou mul s2 x (shape x ! 0) (shape x ! 3) [] = (s', Inr l)"
    by auto
  let ?t = "\<lparr> obj_mask = (\<lambda>_. False), noobj_mask = (\<lambda>_. True),
           tx = (\<lambda>_. 0), ty = (\<lambda>_. 0), tw = (\<lambda>_. 0), th = (\<lambda>_. 0), tim = (\<lambda>_. 0), tre = (\<lambda>_. 0),
           tcls = (\<lambda>_. 0), tconf = (\<lambda>_. 0::real) \<rparr>"
  have e: "\<forall>p. \<not> obj_mask ?t p" by simp
  note nan = compute_losses_empty_obj[OF e]
  from fl show ?thesis
    by (auto simp: forward_loss_def Let_def build_targets_no_boxes nan metrics_of_def
        split: option.splits)
qed

lemma forward_train_ok:
  assumes "layer_inv self"
    and "length (shape x) = 4"
    and "numel x = shape x ! 0 * num_anchors self * (num_classes self + 7) * (shape x ! 3) * (shape x ! 3)"
    and "N = shape x ! 0" and "g = shape x ! 3"
    and "N \<noteq> 0" and "num_classes self \<noteq> 0" and "g \<noteq> 0"
    and "g \<noteq> grid_size self" and "img \<noteq> 0" and "anchors self \<noteq> []"
    and "build_targets iou mul (fst (compute_grid_offsets (self\<lparr>img_size := img\<rparr>) g))
           (N, num_anchors self, g, num_classes self) tg
           (scale_anchors (real_of_int img / real g) (anchors self)) = Inr t"
  shows "\<exists>s' out l. forward iou mul self x (Some tg) img = (s', Inr (out, l))"
proof -
  let ?s1 = "self\<lparr>img_size := img\<rparr>"
  let ?s2 = "fst (compute_grid_offsets ?s1 g)"
  have i0: "img_size ?s1 \<noteq> 0" and a0: "anchors ?s1 \<noteq> []" using assms(10,11) by simp_all
  have c: "compute_grid_offsets ?s1 g = (?s2, None)"
    using compute_grid_offsets_ok[OF assms(8) i0 a0] by simp
  have sa: "scaled_anchors ?s2 = Some (scale_anchors (real_of_int img / real g) (anchors self))"
    using compute_grid_offsets_geometry(5)[OF assms(8) i0] by simp
  have cfg: "num_anchors ?s2 = num_anchors self" "num_classes ?s2 = num_classes self"
    by (simp_all add: compute_grid_offsets_config)
  from forward_infer_ok[OF assms(1-8), where img = img and iou = iou and mul = mul] assms(9,10,11)
  obtain s' out where "forward iou mul self x None img = (s', Inr (out, Num 0))" by blast
  from forward_InrD[OF this] assms(9) c
  have fo: "forward_output ?s2 x (shape x ! 0) (shape x ! 3) = Inr out"
    unfolding assms(5) by auto
  have u: "(if shape x ! 3 \<noteq> grid_size ?s1 then compute_grid_offsets ?s1 (shape x ! 3) else (?s1, None))
           = (?s2, None)"
    using c assms(9) unfolding assms(5) by simp
  have fl: "forward_loss iou mul ?s2 x (shape x ! 0) (shape x ! 3) tg
            = (?s2\<lparr>metrics := metrics_of (compute_losses ?s2
                  (prediction x (num_anchors self) (num_classes self) g) N (num_anchors self) g
                  (num_classes self) t)\<rparr>,
               Inr (total_loss (compute_losses ?s2
                  (prediction x (num_anchors self) (num_classes self) g) N (num_anchors self) g
                  (num_classes self) t)))"
    using assms(12) sa unfolding assms(4,5)
    by (simp add: forward_loss_def Let_def compute_grid_offsets_config)
  show ?thesis
    using assms(2,3) u fo fl by (simp add: forward_def Let_def)
qed

subsection \<open>The statements on the example layer and input\<close>

lemma example_shape:
  "length (shape example_input) = 4"
  "shape example_input ! 0 = 1" "shape example_input ! 3 = 2"
  "numel example_input = 32"
  by (simp_all add: example_input_def numel_def)

lemma example_layer_fields:
  "num_anchors example_layer = 1" "num_classes example_layer = 1"
  "anchors example_layer = [(2, 2, 0, 1)]" "grid_size example_layer = 0"
  "stride example_layer = 8" "scale_x_y example_layer = 1" "ignore_thresh example_layer = 1/2"
  by (simp_all add: example_layer_def YoloLayer_init_def)

lemma example_inv: "layer_inv example_layer"
  unfolding example_layer_def by (rule layer_inv_init)

lemma example_view:
  "numel example_input = shape example_input ! 0 * num_anchors example_layer
     * (num_classes example_layer + 7) * (shape example_input ! 3) * (shape example_input ! 3)"
  by (simp add: example_shape example_layer_fields)

lemma example_prediction:
  assumes "(((n * nA + a) * (nC + 7) + c) * g + i) * g + j < 32"
  shows "prediction example_input nA nC g n a i j c = 0"
  using assms by (simp add: prediction_def example_input_def)

lemma example_geometry_ready:
  "shape example_input ! 3 \<noteq> grid_size example_layer \<and> (608::int) \<noteq> 0 \<and>
      anchors example_layer \<noteq> [] \<or>
      shape example_input ! 3 = grid_size example_layer \<and> grid_x example_layer \<noteq> None \<and>
      grid_y example_layer \<noteq> None \<and> anchor_w example_layer \<noteq> None \<and> anchor_h example_layer \<noteq> None"
  by (simp add: example_shape example_layer_fields)

lemma example_nonzero:
  "shape example_input ! 0 \<noteq> 0" "num_classes example_layer \<noteq> 0" "shape example_input ! 3 \<noteq> 0"
  by (simp_all add: example_shape example_layer_fields)

lemma example_forward_state:
  assumes "forward aligned_iou exact_mul example_layer example_input None 608 = (s', Inr (out, l))"
  shows "grid_x s' = Some (repeat_rows 2 (arange 2))"
    and "grid_y s' = Some (t2 2 (repeat_rows 2 (arange 2)))"
    and "stride s' = 304"
    and "scaled_anchors s' = Some [(1/152, 1/152, 0, 1)]"
proof -
  let ?s1 = "example_layer\<lparr>img_size := 608\<rparr>"
  from forward_InrD[OF assms] have s': "s' = fst (compute_grid_offsets ?s1 2)"
    by (auto simp: example_shape example_layer_fields)
  have g: "(2::nat) \<noteq> 0" and i: "img_size ?s1 \<noteq> 0" by simp_all
  note geo = compute_grid_offsets_geometry[OF g i]
  show "grid_x s' = Some (repeat_rows 2 (arange 2))" unfolding s' by (rule geo)
  show "grid_y s' = Some (t2 2 (repeat_rows 2 (arange 2)))" unfolding s' by (rule geo)
  show "stride s' = 304" unfolding s' using geo(2) by simp
  show "scaled_anchors s' = Some [(1/152, 1/152, 0, 1)]"
    unfolding s' using geo(5) by (simp add: scale_anchors_def example_layer_fields)
qed

text \<open>The first call on the example layer, with an image of size 608 and a grid of
  size 2: the geometry is computed (C6); the boxes are returned with the loss 0, the box of
  anchor 0 in cell (1, 0) being the centre \<open>((0.5 + 0) * 304, (0.5 + 1) * 304)\<close>, the size
  \<open>(2 / 304) * 304\<close>, and 0, 0, 0.5, 0.5 (C9); and the box of anchor 0 in cell (1, 1) is
  the centre \<open>(0.5 + 1) * 304\<close>, the same size, and 0, 0, 0.5, 0.5 (C4).\<close>

theorem forward_grid_geometry_witness:
  "grid_size (fst (forward aligned_iou exact_mul example_layer example_input None 608)) = 2 \<and>
   stride (fst (forward aligned_iou exact_mul example_layer example_input None 608)) = 304"
  using forward_grid_geometry[OF example_shape(1) example_view refl refl,
          where iou = aligned_iou and mul = exact_mul and targets = None and img = 608]
  by (simp add: example_shape example_layer_fields)

theorem forward_without_targets_witness:
  "\<exists>s' out. forward aligned_iou exact_mul example_layer example_input None 608 = (s', Inr (out, Num 0)) \<and>
     length out = 1 \<and> length (out ! 0) = 4 \<and>
     out ! 0 ! 2 = [152, 456, 2, 2, 0, 0, 1/2, 1/2]"
proof -
  from forward_without_targets[OF example_inv example_shape(1) example_view refl refl example_nonzero
         example_geometry_ready refl refl refl, where iou = aligned_iou and mul = exact_mul]
  obtain s' out gxs gys sa where
    fw: "forward aligned_iou exact_mul example_layer example_input None 608 = (s', Inr (out, Num 0))"
    and len: "length out = shape example_input ! 0"
      "\<forall>n < shape example_input ! 0. length (out ! n)
          = num_anchors example_layer * shape example_input ! 3 * shape example_input ! 3"
    and c: "grid_x s' = Some gxs" "grid_y s' = Some gys" "scaled_anchors s' = Some sa"
    and rows: "\<forall>n < shape example_input ! 0. \<forall>a < num_anchors example_layer.
        \<forall>i < shape example_input ! 3. \<forall>j < shape example_input ! 3.
         length (out ! n ! ((a * shape example_input ! 3 + i) * shape example_input ! 3 + j))
           = 7 + num_classes example_layer \<and>
         out ! n ! ((a * shape example_input ! 3 + i) * shape example_input ! 3 + j) =
           [ (sigmoid (prediction example_input (num_anchors example_layer) (num_classes example_layer)
                         (shape example_input ! 3) n a i j 0) * scale_x_y example_layer
                - 0.5 * (scale_x_y example_layer - 1) + gxs ! i ! j) * stride s',
             (sigmoid (prediction example_input (num_anchors example_layer) (num_classes example_layer)
                         (shape example_input ! 3) n a i j 1) * scale_x_y example_layer
                - 0.5 * (scale_x_y example_layer - 1) + gys ! i ! j) * stride s',
             exp (prediction example_input (num_anchors example_layer) (num_classes example_layer)
                         (shape example_input ! 3) n a i j 2) * fst (sa ! a) * stride s',
             exp (prediction example_input (num_anchors example_layer) (num_classes example_layer)
                         (shape example_input ! 3) n a i j 3) * fst (snd (sa ! a)) * stride s',
             prediction example_input (num_anchors example_layer) (num_classes example_layer)
                         (shape example_input ! 3) n a i j 4,
             prediction example_input (num_anchors example_layer) (num_classes example_layer)
                         (shape example_input ! 3) n a i j 5,
             sigmoid (prediction example_input (num_anchors example_layer) (num_classes example_layer)
                         (shape example_input ! 3) n a i j 6) ]
           @ map (\<lambda>c. sigmoid (prediction example_input (num_anchors example_layer)
                         (num_classes example_layer) (shape example_input ! 3) n a i j (7 + c)))
               [0..<num_classes example_layer]"
    by blast
  note st = example_forward_state[OF fw]
  have gxs: "gxs = repeat_rows 2 (arange 2)" and gys: "gys = t2 2 (repeat_rows 2 (arange 2))"
    and sa: "sa = [(1/152, 1/152, 0, 1)]"
    using c st by simp_all
  have e: "gxs ! Suc 0 ! 0 = 0" "gys ! Suc 0 ! 0 = 1"
    unfolding gxs gys by (simp_all add: grid_x_entry grid_y_entry)
  have h: "(0::nat) < shape example_input ! 0" "(0::nat) < num_anchors example_layer"
    "(1::nat) < shape example_input ! 3" "(0::nat) < shape example_input ! 3"
    by (simp_all add: example_shape example_layer_fields)
  from rows[rule_format, OF h(1) h(2) h(3) h(4)] have "out ! 0 ! ((0 * 2 + 1) * 2 + 0) =
           [ (sigmoid (prediction example_input 1 1 2 0 0 1 0 0) * 1 - 0.5 * (1 - 1) + gxs ! 1 ! 0) * 304,
             (sigmoid (prediction example_input 1 1 2 0 0 1 0 1) * 1 - 0.5 * (1 - 1) + gys ! 1 ! 0) * 304,
             exp (prediction example_input 1 1 2 0 0 1 0 2) * fst (sa ! 0) * 304,
             exp (prediction example_input 1 1 2 0 0 1 0 3) * fst (snd (sa ! 0)) * 304,
             prediction example_input 1 1 2 0 0 1 0 4,
             prediction example_input 1 1 2 0 0 1 0 5,
             sigmoid (prediction example_input 1 1 2 0 0 1 0 6) ]
           @ map (\<lambda>c. sigmoid (prediction example_input 1 1 2 0 0 1 0 (7 + c))) [0..<1]"
    by (simp add: example_shape example_layer_fields st)
  then have "out ! 0 ! 2 = [152, 456, 2, 2, 0, 0, 1/2, 1/2]"
    by (simp add: example_prediction e sa sigmoid_def)
  moreover have "length out = 1" "length (out ! 0) = 4"
    using len by (simp_all add: example_shape example_layer_fields)
  ultimately show ?thesis using fw by blast
qed

theorem forward_decodes_boxes_witness:
  "\<exists>s' out l. forward aligned_iou exact_mul example_layer example_input None 608 = (s', Inr (out, l)) \<and>
     length out = 1 \<and> length (out ! 0) = 4 \<and>
     out ! 0 ! 3 = [456, 456, 2, 2, 0, 0, 1/2, 1/2]"
proof -
  from forward_infer_ok[OF example_inv example_shape(1) example_view refl refl example_nonzero
         example_geometry_ready, where iou = aligned_iou and mul = exact_mul]
  obtain s' out where fw: "forward aligned_iou exact_mul example_layer example_input None 608 = (s', Inr (out, Num 0))"
    by blast
  note st = example_forward_state[OF fw]
  from forward_decodes_boxes[OF example_inv fw refl refl refl refl refl]
  obtain gxs gys sa where
    len: "length out = shape example_input ! 0"
      "\<forall>n < shape example_input ! 0. length (out ! n)
          = num_anchors example_layer * shape example_input ! 3 * shape example_input ! 3"
    and c: "grid_x s' = Some gxs" "grid_y s' = Some gys" "scaled_anchors s' = Some sa"
    and rows: "\<forall>n < shape example_input ! 0. \<forall>a < num_anchors example_layer.
        \<forall>i < shape example_input ! 3. \<forall>j < shape example_input ! 3.
         out ! n ! ((a * shape example_input ! 3 + i) * shape example_input ! 3 + j) =
           [ (sigmoid (prediction example_input (num_anchors example_layer) (num_classes example_layer)
                         (shape example_input ! 3) n a i j 0) * scale_x_y example_layer
                - 0.5 * (scale_x_y example_layer - 1) + gxs ! i ! j) * stride s',
             (sigmoid (prediction example_input (num_anchors example_layer) (num_classes example_layer)
                         (shape example_input ! 3) n a i j 1) * scale_x_y example_layer
                - 0.5 * (scale_x_y example_layer - 1) + gys ! i ! j) * stride s',
             exp (prediction example_input (num_anchors example_layer) (num_classes example_layer)
                         (shape example_input ! 3) n a i j 2) * fst (sa ! a) * stride s',
             exp (prediction example_input (num_anchors example_layer) (num_classes example_layer)
                         (shape example_input ! 3) n a i j 3) * fst (snd (sa ! a)) * stride s',
             prediction example_input (num_anchors example_layer) (num_classes example_layer)
                         (shape example_input ! 3) n a i j 4,
             prediction example_input (num_anchors example_layer) (num_classes example_layer)
                         (shape example_input ! 3) n a i j 5,
             sigmoid (prediction example_input (num_anchors example_layer) (num_classes example_layer)
                         (shape example_input ! 3) n a i j 6) ]
           @ map (\<lambda>c. sigmoid (prediction example_input (num_anchors example_layer)
                         (num_classes example_layer) (shape example_input ! 3) n a i j (7 + c)))
               [0..<num_classes example_layer]"
    by blast
  have gxs: "gxs = repeat_rows 2 (arange 2)" and gys: "gys = t2 2 (repeat_rows 2 (arange 2))"
    and sa: "sa = [(1/152, 1/152, 0, 1)]"
    using c st by simp_all
  have e: "gxs ! Suc 0 ! Suc 0 = 1" "gys ! Suc 0 ! Suc 0 = 1"
    unfolding gxs gys by (simp_all add: grid_x_entry grid_y_entry)
  have h: "(0::nat) < shape example_input ! 0" "(0::nat) < num_anchors example_layer"
    "(1::nat) < shape example_input ! 3"
    by (simp_all add: example_shape example_layer_fields)
  from rows[rule_format, OF h(1) h(2) h(3) h(3)] have "out ! 0 ! ((0 * 2 + 1) * 2 + 1) =
           [ (sigmoid (prediction example_input 1 1 2 0 0 1 1 0) * 1 - 0.5 * (1 - 1) + gxs ! 1 ! 1) * 304,
             (sigmoid (prediction example_input 1 1 2 0 0 1 1 1) * 1 - 0.5 * (1 - 1) + gys ! 1 ! 1) * 304,
             exp (prediction example_input 1 1 2 0 0 1 1 2) * fst (sa ! 0) * 304,
             exp (prediction example_input 1 1 2 0 0 1 1 3) * fst (snd (sa ! 0)) * 304,
             prediction example_input 1 1 2 0 0 1 1 4,
             prediction example_input 1 1 2 0 0 1 1 5,
             sigmoid (prediction example_input 1 1 2 0 0 1 1 6) ]
           @ map (\<lambda>c. sigmoid (prediction example_input 1 1 2 0 0 1 1 (7 + c))) [0..<1]"
    by (simp add: example_shape example_layer_fields st)
  then have "out ! 0 ! 3 = [456, 456, 2, 2, 0, 0, 1/2, 1/2]"
    by (simp add: example_prediction e sa sigmoid_def)
  moreover have "length out = 1" "length (out ! 0) = 4"
    using len by (simp_all add: example_shape example_layer_fields)
  ultimately show ?thesis using fw by blast
qed

text \<open>Claim C8, as stated, fails for \<open>stride\<close>: the constructor stores the value 8 it
  is given, and the first call of \<open>forward\<close> replaces it by \<open>608 / 2\<close> (line 48). The other
  fields stay.\<close>

theorem forward_overwrites_stride_counterexample:
  "stride example_layer = 8 \<and>
   stride (forward_calls aligned_iou exact_mul example_layer [(example_input, None, 608)]) = 304"
proof -
  let ?s1 = "example_layer\<lparr>img_size := 608\<rparr>"
  have st: "fst (forward aligned_iou exact_mul example_layer example_input None 608)
           = fst (if shape example_input ! 3 \<noteq> grid_size example_layer
                  then compute_grid_offsets ?s1 (shape example_input ! 3)
                  else (?s1, None)) \<or>
         (\<exists>m. fst (forward aligned_iou exact_mul example_layer example_input None 608)
           = (fst (if shape example_input ! 3 \<noteq> grid_size example_layer
                   then compute_grid_offsets ?s1 (shape example_input ! 3)
                   else (?s1, None)))\<lparr>metrics := m\<rparr>)"
    using example_shape(1) example_view by (rule forward_state_view)
  have g: "(2::nat) \<noteq> 0" and i: "img_size ?s1 \<noteq> 0" by simp_all
  have "stride (fst (compute_grid_offsets ?s1 2)) = 304"
    using compute_grid_offsets_geometry(2)[OF g i] by simp
  with st have "stride (fst (forward aligned_iou exact_mul example_layer example_input None 608)) = 304"
    by (auto simp: example_shape example_layer_fields)
  then show ?thesis by (simp add: example_layer_fields)
qed

theorem forward_keeps_configuration_witness:
  "anchors (forward_calls aligned_iou exact_mul example_layer [(example_input, None, 608)]) = [(2, 2, 0, 1)] \<and>
   ignore_thresh (forward_calls aligned_iou exact_mul example_layer [(example_input, None, 608)]) = 1/2"
  using forward_keeps_configuration[of aligned_iou exact_mul example_layer "[(example_input, None, 608)]"]
  by (simp add: example_layer_fields)

lemma example_all_slots: "all_slots 1 1 2 = [(0,0,0,0), (0,0,0,1), (0,0,1,0), (0,0,1,1)]"
  by code_simp

lemma clamp_log_half: "clamp_log (1/2) = - ln 2"
proof -
  have "ln (2::real) < 1" by (rule ln_2_less_1)
  then have "- 100 \<le> - ln (2::real)" by simp
  moreover have "ln (1/2 :: real) = - ln 2" by (simp add: ln_div)
  ultimately show ?thesis by (simp add: clamp_log_def max_def)
qed

lemma example_noobj_term:
  "bce_loss (masked (\<lambda>_. True) (all_slots 1 1 2)
               (\<lambda>(n, a, i, j). sigmoid (prediction example_input 1 1 2 n a i j 6)))
            (masked (\<lambda>_. True) (all_slots 1 1 2) (\<lambda>_. 0))
   = Num (ln 2)"
  unfolding example_all_slots
  by (simp add: masked_def bce_loss_def example_prediction sigmoid_def clamp_log_half)

text \<open>Claim C1 on the example: with a ground-truth tensor of zero rows the call returns,
  and the total loss is NaN. The no-object confidence term alone, which the claim gives
  as the total, is the mean over the four positions of \<open>- log (1 - 1/2)\<close>, that is
  \<open>log 2\<close>.\<close>

theorem forward_no_boxes_loss_nan_witness:
  "(\<exists>s' out. forward aligned_iou exact_mul example_layer example_input (Some []) 608 = (s', Inr (out, NaN))) \<and>
   bce_loss (masked (\<lambda>_. True) (all_slots 1 1 2)
               (\<lambda>(n, a, i, j). sigmoid (prediction example_input 1 1 2 n a i j 6)))
            (masked (\<lambda>_. True) (all_slots 1 1 2) (\<lambda>_. 0))
   = Num (ln 2)"
proof -
  have ne: "shape example_input ! 3 \<noteq> grid_size example_layer" "(608::int) \<noteq> 0"
    "anchors example_layer \<noteq> []"
    by (simp_all add: example_shape example_layer_fields)
  from forward_train_ok[OF example_inv example_shape(1) example_view refl refl example_nonzero ne
         build_targets_no_boxes, where iou = aligned_iou and mul = exact_mul]
  obtain s' out l where fw: "forward aligned_iou exact_mul example_layer example_input (Some []) 608 = (s', Inr (out, l))"
    by blast
  from forward_no_boxes_loss_nan[OF fw] have "l = NaN" by simp
  with fw have "\<exists>s' out. forward aligned_iou exact_mul example_layer example_input (Some []) 608 = (s', Inr (out, NaN))"
    by blast
  then show ?thesis using example_noobj_term by blast
qed

subsection \<open>What forward checks of its inputs\<close>

lemma build_targets_take8:
  "build_targets iou mul s sz (map (take 8) tg) anchs = build_targets iou mul s sz tg anchs"
proof -
  obtain nB nA nG nC where sz: "sz = (nB, nA, nG, nC)" by (cases sz) auto
  have a: "map (\<lambda>r. take 6 (drop 2 r)) (map (take 8) tg) = map (\<lambda>r. take 6 (drop 2 r)) tg"
    by (simp add: drop_take)
  have b: "map (\<lambda>r. map long (take 2 r)) (map (take 8) tg) = map (\<lambda>r. map long (take 2 r)) tg"
    by simp
  have c: "length (map (take 8) tg) = length tg" by simp
  show ?thesis
    unfolding sz build_targets_def a b c ..
qed

lemma unpack2_short:
  assumes "r \<in> set m" "length r \<noteq> 2"
  shows "unpack2 m = Inl ValueError"
  using assms by (auto simp: unpack2_def list_all_iff)

lemma build_targets_short_row:
  assumes "r \<in> set tg" "length r < 8"
  shows "isl (build_targets iou mul s sz tg anchs)"
proof -
  obtain nB nA nG nC where sz: "sz = (nB, nA, nG, nC)" by (cases sz) auto
  let ?gimre = "map (drop 4) (map (\<lambda>r. take 6 (drop 2 r)) tg)"
  have "drop 4 (take 6 (drop 2 r)) \<in> set ?gimre" using assms(1) by auto
  moreover have "length (drop 4 (take 6 (drop 2 r))) \<noteq> 2" using assms(2) by auto
  ultimately have u: "unpack2 ?gimre = Inl ValueError" by (rule unpack2_short)
  have ne: "0 < length tg" using assms(1) by (cases tg) auto
  show ?thesis
    using u ne unfolding sz build_targets_def
    by (auto simp: Let_def split: sum.splits prod.splits)
qed

lemma forward_short_row:
  assumes "r \<in> set tg" "length r < 8"
  shows "isl (snd (forward iou mul self x (Some tg) img))"
proof (cases "snd (forward iou mul self x (Some tg) img)")
  case (Inl e)
  then show ?thesis by simp
next
  case (Inr p)
  obtain out l where p: "p = (out, l)" by (cases p)
  obtain s' where "forward iou mul self x (Some tg) img = (s', Inr (out, l))"
    using Inr p by (cases "forward iou mul self x (Some tg) img") auto
  from forward_InrD[OF this] obtain s2 where
    fl: "forward_loss iou mul s2 x (shape x ! 0) (shape x ! 3) tg = (s', Inr l)" by auto
  from fl obtain sa t where
    "build_targets iou mul s2 (shape x ! 0, num_anchors s2, shape x ! 3, num_classes s2) tg sa = Inr t"
    by (auto simp: forward_loss_def Let_def split: option.splits sum.splits)
  moreover have "isl (build_targets iou mul s2 (shape x ! 0, num_anchors s2, shape x ! 3, num_classes s2) tg sa)"
    using assms by (rule build_targets_short_row)
  ultimately have False by simp
  then show ?thesis ..
qed

lemma forward_loss_take8:
  "forward_loss iou mul s x n g (map (take 8) tg) = forward_loss iou mul s x n g tg"
  unfolding forward_loss_def build_targets_take8 ..

lemma forward_take8:
  "forward iou mul self x (Some (map (take 8) tg)) img = forward iou mul self x (Some tg) img"
  unfolding forward_def option.case forward_loss_take8 ..

text \<open>Claim C7, as stated, fails: \<open>forward\<close> has no validation of its own. The view
  of line 134 compares numbers of entries only, so a tensor of 4 channels (8 are needed),
  height 2 and width 1 is accepted and decoded as a grid of size 1; and a ground-truth row
  of 9 fields is accepted, the slices of lines 83-87 reading its first 8.\<close>

theorem forward_accepts_unchecked_shapes_counterexample:
  "shape \<lparr>shape = [1, 4, 2, 1], data = replicate 8 0\<rparr> ! 1
     \<noteq> num_anchors example_layer * (7 + num_classes example_layer) \<and>
   \<not> isl (snd (forward aligned_iou exact_mul example_layer \<lparr>shape = [1, 4, 2, 1], data = replicate 8 0\<rparr> None 608)) \<and>
   length [0, 0, 1/2, 1/2, 1/4, 1/4, 0, 1, 99 :: real] \<noteq> 8 \<and>
   \<not> isl (snd (forward aligned_iou exact_mul example_layer example_input
                  (Some [[0, 0, 1/2, 1/2, 1/4, 1/4, 0, 1, 99]]) 608))"
proof -
  let ?x = "\<lparr>shape = [1, 4, 2, 1], data = replicate 8 0\<rparr>"
  have x1: "length (shape ?x) = 4" by simp
  have x2: "numel ?x = shape ?x ! 0 * num_anchors example_layer * (num_classes example_layer + 7)
              * (shape ?x ! 3) * (shape ?x ! 3)"
    by (simp add: numel_def example_layer_fields)
  have x3: "shape ?x ! 0 \<noteq> 0" "num_classes example_layer \<noteq> 0" "shape ?x ! 3 \<noteq> 0"
    by (simp_all add: example_layer_fields)
  have x4: "shape ?x ! 3 \<noteq> grid_size example_layer \<and> (608::int) \<noteq> 0 \<and> anchors example_layer \<noteq> [] \<or>
      shape ?x ! 3 = grid_size example_layer \<and> grid_x example_layer \<noteq> None \<and>
      grid_y example_layer \<noteq> None \<and> anchor_w example_layer \<noteq> None \<and> anchor_h example_layer \<noteq> None"
    by (simp add: example_layer_fields)
  from forward_infer_ok[OF example_inv x1 x2 refl refl x3 x4, where iou = aligned_iou and mul = exact_mul]
  have p1: "\<not> isl (snd (forward aligned_iou exact_mul example_layer ?x None 608))"
    by auto
  let ?r9 = "[0, 0, 1/2, 1/2, 1/4, 1/4, 0, 1, 99] :: real list"
  let ?r8 = "[0, 0, 1/2, 1/2, 1/4, 1/4, 0, 1] :: real list"
  let ?s2 = "fst (compute_grid_offsets (example_layer\<lparr>img_size := 608\<rparr>) (shape example_input ! 3))"
  let ?sa = "scale_anchors (real_of_int 608 / real (shape example_input ! 3)) (anchors example_layer)"
  have ne: "shape example_input ! 3 \<noteq> grid_size example_layer" "(608::int) \<noteq> 0"
    "anchors example_layer \<noteq> []"
    by (simp_all add: example_shape example_layer_fields)
  have h1: "[?r8] \<noteq> []" by simp
  have h2: "list_all (gt_ok exact_mul (shape example_input ! 0) (shape example_input ! 3) (num_classes example_layer)) [?r8]"
    unfolding example_shape example_layer_fields
    by (simp only: list.pred_inject gt_ok_example simp_thms)
  have h3: "?sa \<noteq> []" by (simp add: example_layer_fields)
  have h4: "length ?sa = num_anchors example_layer" by (simp add: example_layer_fields)
  have "build_targets aligned_iou exact_mul ?s2
          (shape example_input ! 0, num_anchors example_layer, shape example_input ! 3,
           num_classes example_layer) (map (take 8) [?r9]) ?sa
        = Inr (rows_targets aligned_iou exact_mul (ignore_thresh ?s2) (shape example_input ! 3) [?r8] ?sa)"
    using build_targets_rows[OF h1 h2 h3 h4, where iou = aligned_iou and self = ?s2] by simp
  then have bt: "build_targets aligned_iou exact_mul ?s2
          (shape example_input ! 0, num_anchors example_layer, shape example_input ! 3,
           num_classes example_layer) [?r9] ?sa
        = Inr (rows_targets aligned_iou exact_mul (ignore_thresh ?s2) (shape example_input ! 3) [?r8] ?sa)"
    unfolding build_targets_take8 .
  from forward_train_ok[OF example_inv example_shape(1) example_view refl refl example_nonzero ne bt]
  have p2: "\<not> isl (snd (forward aligned_iou exact_mul example_layer example_input (Some [?r9]) 608))"
    by auto
  show ?thesis using p1 p2 by (simp add: example_layer_fields)
qed

text \<open>Claim C7, amended. A four-dimensional input whose number of entries is not
  \<open>num_samples * num_anchors * (7 + num_classes) * g * g\<close>, for \<open>g\<close> its last dimension,
  makes \<open>forward\<close> raise at the view of line 134, with nothing done but the assignment
  of \<open>img_size\<close>; that is so whenever the channel dimension is not
  \<open>num_anchors * (7 + num_classes)\<close> on a non-empty batch with a non-empty square grid. A
  ground-truth row of fewer
  than 8 fields makes \<open>forward\<close> raise (in \<open>build_targets\<close>, after the decoding), and the
  fields of a row beyond the eighth are ignored.\<close>

theorem forward_shape_checks:
  "(length (shape x) = 4 \<and>
    numel x \<noteq> shape x ! 0 * num_anchors self * (num_classes self + 7) * (shape x ! 3) * (shape x ! 3) \<longrightarrow>
      forward iou mul self x targets img = (self\<lparr>img_size := img\<rparr>, Inl RuntimeError)) \<and>
   (shape x = [N, C, g, g] \<and> N \<noteq> 0 \<and> g \<noteq> 0 \<and> C \<noteq> num_anchors self * (num_classes self + 7) \<longrightarrow>
      forward iou mul self x targets img = (self\<lparr>img_size := img\<rparr>, Inl RuntimeError)) \<and>
   ((\<exists>r \<in> set tg. length r < 8) \<longrightarrow> isl (snd (forward iou mul self x (Some tg) img))) \<and>
   forward iou mul self x (Some tg) img = forward iou mul self x (Some (map (take 8) tg)) img"
proof (intro conjI impI)
  assume "length (shape x) = 4 \<and>
    numel x \<noteq> shape x ! 0 * num_anchors self * (num_classes self + 7) * (shape x ! 3) * (shape x ! 3)"
  then show "forward iou mul self x targets img = (self\<lparr>img_size := img\<rparr>, Inl RuntimeError)"
    using forward_state_noview[where x = x and self = self and iou = iou and mul = mul and targets = targets and img = img]
    by simp
next
  assume a: "shape x = [N, C, g, g] \<and> N \<noteq> 0 \<and> g \<noteq> 0 \<and> C \<noteq> num_anchors self * (num_classes self + 7)"
  then have "numel x = N * C * g * g" by (simp add: numel_def)
  moreover have "N * C * g * g \<noteq> N * num_anchors self * (num_classes self + 7) * g * g"
    using a by simp
  ultimately have "length (shape x) = 4 \<and>
    numel x \<noteq> shape x ! 0 * num_anchors self * (num_classes self + 7) * (shape x ! 3) * (shape x ! 3)"
    using a by simp
  then show "forward iou mul self x targets img = (self\<lparr>img_size := img\<rparr>, Inl RuntimeError)"
    using forward_state_noview[where x = x and self = self and iou = iou and mul = mul and targets = targets and img = img]
    by simp
next
  assume "\<exists>r \<in> set tg. length r < 8"
  then show "isl (snd (forward iou mul self x (Some tg) img))"
    using forward_short_row by blast
next
  show "forward iou mul self x (Some tg) img = forward iou mul self x (Some (map (take 8) tg)) img"
    by (simp add: forward_take8)
qed

theorem forward_shape_checks_witness:
  "forward aligned_iou exact_mul example_layer \<lparr>shape = [1, 7, 2, 2], data = replicate 28 0\<rparr> None 608
     = (example_layer\<lparr>img_size := 608\<rparr>, Inl RuntimeError) \<and>
   isl (snd (forward aligned_iou exact_mul example_layer example_input (Some [[0, 0, 1/2, 1/2, 1/4, 1/4, 0]]) 608))"
proof -
  let ?x = "\<lparr>shape = [1, 7, 2, 2], data = replicate 28 0\<rparr>"
  have a: "shape ?x = [1, 7, 2, 2] \<and> (1::nat) \<noteq> 0 \<and> (2::nat) \<noteq> 0 \<and>
           7 \<noteq> num_anchors example_layer * (num_classes example_layer + 7)"
    by (simp add: example_layer_fields)
  have b: "\<exists>r \<in> set [[0, 0, 1/2, 1/2, 1/4, 1/4, 0::real]]. length r < 8" by simp
  note t = forward_shape_checks[where x = ?x and N = 1 and C = 7 and g = 2 and self = example_layer
      and iou = aligned_iou and mul = exact_mul and targets = None and img = 608
      and tg = "[[0, 0, 1/2, 1/2, 1/4, 1/4, 0]]"]
  from t a have "forward aligned_iou exact_mul example_layer ?x None 608
     = (example_layer\<lparr>img_size := 608\<rparr>, Inl RuntimeError)" by blast
  moreover from forward_shape_checks[where x = example_input and self = example_layer
      and iou = aligned_iou and mul = exact_mul and img = 608 and tg = "[[0, 0, 1/2, 1/2, 1/4, 1/4, 0]]"] b
  have "isl (snd (forward aligned_iou exact_mul example_layer example_input (Some [[0, 0, 1/2, 1/2, 1/4, 1/4, 0]]) 608))"
    by blast
  ultimately show ?thesis by simp
qed

end
